theory Spec2Isabelle
  imports Main "HOL-Library.Word"
begin

unbundle bit_operations_syntax

section \<open>Runes, strings and maps of the Go code\<close>

text \<open>
  A Go \<^verbatim>\<open>rune\<close> is an \<^verbatim>\<open>int32\<close>. Every rune the code computes stays between 0 and
  0x10FFFF, so runes are integers here and no wrap-around can occur. A Go string is
  represented by the sequence of runes that \<^verbatim>\<open>for _, char := range s\<close> and
  \<^verbatim>\<open>ReadRune\<close> yield for it (an ill-formed byte appears as U+FFFD in both).
\<close>

type_synonym rune = int
type_synonym gostring = "rune list"

definition gs :: "string \<Rightarrow> gostring" where
  "gs s = map of_char s"

definition ReplacementChar :: rune where
  "ReplacementChar = 0xFFFD"

text \<open>
  \<^verbatim>\<open>strings.Builder.WriteRune\<close> and the conversion \<^verbatim>\<open>string([]rune)\<close> store U+FFFD for
  a value that is not a Unicode scalar value.
\<close>

definition WriteRune :: "rune \<Rightarrow> rune" where
  "WriteRune r = (if r < 0 \<or> r > 0x10FFFF \<or> (0xD800 \<le> r \<and> r \<le> 0xDFFF) then ReplacementChar else r)"

text \<open>
  A Go map is a reference that may be \<^verbatim>\<open>nil\<close>. Reading and \<^verbatim>\<open>delete\<close> treat the nil
  map as empty; an assignment to an entry of the nil map panics.
\<close>

type_synonym ('k, 'v) gomap = "('k \<rightharpoonup> 'v) option"

datatype panic = OutOfBounds | AssignmentToEntryInNilMap | NilPointerDereference

definition go_lookup :: "('k, 'v) gomap \<Rightarrow> 'k \<Rightarrow> 'v option" where
  "go_lookup m k = (case m of None \<Rightarrow> None | Some f \<Rightarrow> f k)"

definition go_delete :: "('k, 'v) gomap \<Rightarrow> 'k \<Rightarrow> ('k, 'v) gomap" where
  "go_delete m k = (case m of None \<Rightarrow> None | Some f \<Rightarrow> Some (f(k := None)))"

definition go_assign :: "('k, 'v) gomap \<Rightarrow> 'k \<Rightarrow> 'v \<Rightarrow> panic + ('k, 'v) gomap" where
  "go_assign m k v = (case m of None \<Rightarrow> Inl AssignmentToEntryInNilMap | Some f \<Rightarrow> Inr (Some (f(k \<mapsto> v))))"

text \<open>\<^verbatim>\<open>if m == nil { m = map[K]V{} }\<close>\<close>

definition go_make_if_nil :: "('k, 'v) gomap \<Rightarrow> ('k \<rightharpoonup> 'v)" where
  "go_make_if_nil m = (case m of None \<Rightarrow> Map.empty | Some f \<Rightarrow> f)"

section \<open>Errors\<close>

datatype NumError = ErrSyntax | ErrRange

datatype error =
    FailedToReadRune
  | InvalidEncoding
  | UnexpectedCharacter rune
  | UnexpectedCharacterAtEnd
  | FailedToParseMemberName error
  | DuplicateMemberName gostring
  | FailedToParseObject error
  | FailedToParseArray error
  | FailedToParseString error
  | FailedToExtractNumber error
  | FailedToExtractIdentifier error
  | UnexpectedIdentifier gostring
  | InvalidHexEncoding
  | InvalidCharacterEncoding
  | ExpectedHexEncoding
  | UnexpectedEscapeCharacter rune
  | InvalidCharacter
  | NoMatchingMember
  | FailedToGetNumber error
  | FailedToParseInt32 NumError

text \<open>What a call of the parser can end in besides a value: an error value, or a panic.\<close>

datatype fault = Err error | Panic panic

definition wrap :: "(error \<Rightarrow> error) \<Rightarrow> fault \<Rightarrow> fault" where
  "wrap ctx f = (case f of Err e \<Rightarrow> Err (ctx e) | Panic p \<Rightarrow> Panic p)"

section \<open>Library functions: strconv and unicode/utf16\<close>

text \<open>
  The functions of this section belong to the Go standard library; they are written
  after its documented behaviour, for base 10 only.
\<close>

definition isDigitCharacter :: "rune \<Rightarrow> bool" where
  "isDigitCharacter r = (r \<ge> 0x30 \<and> r \<le> 0x39)"

fun ParseUint_loop :: "nat \<Rightarrow> nat \<Rightarrow> gostring \<Rightarrow> NumError + nat" where
  "ParseUint_loop maxVal n [] = Inr n"
| "ParseUint_loop maxVal n (c # s) =
     (if \<not> (0x30 \<le> c \<and> c \<le> 0x39) then Inl ErrSyntax
      else if n \<ge> (2 ^ 64 - 1) div 10 + 1 then Inl ErrRange
      else let n1 = n * 10 + nat (c - 0x30) in
        if n1 > maxVal then Inl ErrRange else ParseUint_loop maxVal n1 s)"

definition ParseUint :: "gostring \<Rightarrow> nat \<Rightarrow> NumError + nat" where
  "ParseUint s bitSize = (if s = [] then Inl ErrSyntax else ParseUint_loop (2 ^ bitSize - 1) 0 s)"

definition ParseInt :: "gostring \<Rightarrow> nat \<Rightarrow> NumError + int" where
  "ParseInt s bitSize =
     (if s = [] then Inl ErrSyntax
      else let neg = (hd s = 0x2D);
               s1 = (if hd s = 0x2B \<or> hd s = 0x2D then tl s else s);
               cutoff = (2::nat) ^ (bitSize - 1)
           in case ParseUint s1 bitSize of
                Inl ErrSyntax \<Rightarrow> Inl ErrSyntax
              | Inl ErrRange \<Rightarrow> Inl ErrRange
              | Inr un \<Rightarrow>
                  if \<not> neg \<and> un \<ge> cutoff then Inl ErrRange
                  else if neg \<and> un > cutoff then Inl ErrRange
                  else Inr (if neg then - int un else int un))"

function FormatUint :: "nat \<Rightarrow> gostring" where
  "FormatUint n = (if n < 10 then [0x30 + int n] else FormatUint (n div 10) @ [0x30 + int (n mod 10)])"
  by pat_completeness auto
termination
  by (relation "measure id") auto

declare FormatUint.simps [simp del]

definition FormatInt :: "int \<Rightarrow> gostring" where
  "FormatInt i = (if i < 0 then 0x2D # FormatUint (nat (- i)) else FormatUint (nat i))"

definition utf16_IsSurrogate :: "rune \<Rightarrow> bool" where
  "utf16_IsSurrogate r = (0xD800 \<le> r \<and> r < 0xE000)"

definition utf16_DecodeRune :: "rune \<Rightarrow> rune \<Rightarrow> rune" where
  "utf16_DecodeRune r1 r2 =
     (if 0xD800 \<le> r1 \<and> r1 < 0xDC00 \<and> 0xDC00 \<le> r2 \<and> r2 < 0xE000
      then ((push_bit 10 (r1 - 0xD800)) OR (r2 - 0xDC00)) + 0x10000
      else ReplacementChar)"

definition utf16_RuneLen :: "rune \<Rightarrow> int" where
  "utf16_RuneLen r =
     (if (0 \<le> r \<and> r < 0xD800) \<or> (0xE000 \<le> r \<and> r < 0x10000) then 1
      else if 0x10000 \<le> r \<and> r \<le> 0x10FFFF then 2
      else - 1)"

definition utf16_EncodeRune :: "rune \<Rightarrow> rune \<times> rune" where
  "utf16_EncodeRune r =
     (if r < 0x10000 \<or> r > 0x10FFFF then (ReplacementChar, ReplacementChar)
      else (0xD800 + ((drop_bit 10 (r - 0x10000)) AND 0x3FF), 0xDC00 + ((r - 0x10000) AND 0x3FF)))"

section \<open>The string escaper\<close>

record StringCharacterEscapingBehavior =
  UseCharacter :: "rune \<Rightarrow> bool"
  UseShorthandEscapeSequence :: "rune \<Rightarrow> bool"

definition MinimalStringCharacterEscapingBehavior :: StringCharacterEscapingBehavior where
  "MinimalStringCharacterEscapingBehavior =
     \<lparr>UseCharacter = (\<lambda>_. True), UseShorthandEscapeSequence = (\<lambda>_. True)\<rparr>"

definition shorthandStringCharacterEscapeSequences :: "rune \<rightharpoonup> gostring" where
  "shorthandStringCharacterEscapeSequences =
     [0x22 \<mapsto> [0x5C, 0x22],
      0x5C \<mapsto> [0x5C, 0x5C],
      0x2F \<mapsto> [0x5C, 0x2F],
      0x08 \<mapsto> [0x5C, 0x62],
      0x0C \<mapsto> [0x5C, 0x66],
      0x0A \<mapsto> [0x5C, 0x6E],
      0x0D \<mapsto> [0x5C, 0x72],
      0x09 \<mapsto> [0x5C, 0x74]]"

definition hexTable :: gostring where
  "hexTable = gs ''0123456789abcdef''"

definition toStringHexEscapeSequence :: "rune \<Rightarrow> gostring" where
  "toStringHexEscapeSequence r =
     [0x5C, 0x75,
      hexTable ! nat ((drop_bit 12 r) AND 0x0F),
      hexTable ! nat ((drop_bit 8 r) AND 0x0F),
      hexTable ! nat ((drop_bit 4 r) AND 0x0F),
      hexTable ! nat (r AND 0x0F)]"

text \<open>The fall-back of \<^verbatim>\<open>encodeString\<close>: one \<^verbatim>\<open>\\uXXXX\<close> escape, or two for a surrogate pair.\<close>

definition encodeString_hex :: "rune \<Rightarrow> gostring" where
  "encodeString_hex char =
     (if utf16_RuneLen char > 1
      then (case utf16_EncodeRune char of (pair1, pair2) \<Rightarrow>
              toStringHexEscapeSequence pair1 @ toStringHexEscapeSequence pair2)
      else toStringHexEscapeSequence char)"

fun encodeString_loop :: "StringCharacterEscapingBehavior \<Rightarrow> gostring \<Rightarrow> gostring \<Rightarrow> gostring" where
  "encodeString_loop characterEscapingBehavior b [] = b"
| "encodeString_loop characterEscapingBehavior b (char # s) =
     (if char \<ge> 0x0000 \<and> char \<le> 0x001F \<and> char \<noteq> 0x22 \<and> char \<noteq> 0x5C
         \<and> UseCharacter characterEscapingBehavior char
      then encodeString_loop characterEscapingBehavior (b @ [WriteRune char]) s
      else (case shorthandStringCharacterEscapeSequences char of
              Some shorthandEscapeSequence \<Rightarrow>
                if UseShorthandEscapeSequence characterEscapingBehavior char
                then encodeString_loop characterEscapingBehavior (b @ shorthandEscapeSequence) s
                else encodeString_loop characterEscapingBehavior (b @ encodeString_hex char) s
            | None \<Rightarrow> encodeString_loop characterEscapingBehavior (b @ encodeString_hex char) s))"

definition encodeString :: "gostring \<Rightarrow> StringCharacterEscapingBehavior \<Rightarrow> gostring" where
  "encodeString s characterEscapingBehavior =
     encodeString_loop characterEscapingBehavior [0x22] s @ [0x22]"

section \<open>The builders\<close>

text \<open>
  In \<^verbatim>\<open>ObjectBuilderStruct\<close> the buffer \<^verbatim>\<open>b\<close> is a pointer to a \<^verbatim>\<open>strings.Builder\<close> and the
  escaping behavior is an interface value. \<^verbatim>\<open>NewObjectBuilder\<close> sets both; in the zero
  value \<^verbatim>\<open>ObjectBuilderStruct{}\<close> both are nil. A method called through the nil pointer
  or the nil interface panics, and the panic is the result of the builder's method.
\<close>

record ObjectBuilderStruct =
  ob_b :: "gostring option"
  ob_stringCharacterEscapingBehavior :: "StringCharacterEscapingBehavior option"
  memberCount :: int

definition zero_ObjectBuilderStruct :: ObjectBuilderStruct where
  "zero_ObjectBuilderStruct =
     \<lparr>ob_b = None, ob_stringCharacterEscapingBehavior = None, memberCount = 0\<rparr>"

definition NewObjectBuilder :: "StringCharacterEscapingBehavior \<Rightarrow> ObjectBuilderStruct" where
  "NewObjectBuilder stringCharacterEscapingBehavior =
     \<lparr>ob_b = Some [], ob_stringCharacterEscapingBehavior = Some stringCharacterEscapingBehavior,
      memberCount = 0\<rparr>"

text \<open>
  \<^verbatim>\<open>encodeString\<close> as a builder calls it, with a behavior that may be the nil interface:
  the loop of \<open>encodeString_loop\<close>, where each of the two method calls panics when there
  is no behavior to call.
\<close>

fun encodeString_loop_interface ::
  "StringCharacterEscapingBehavior option \<Rightarrow> gostring \<Rightarrow> gostring \<Rightarrow> panic + gostring" where
  "encodeString_loop_interface characterEscapingBehavior b [] = Inr b"
| "encodeString_loop_interface characterEscapingBehavior b (char # s) =
     (if char \<ge> 0x0000 \<and> char \<le> 0x001F \<and> char \<noteq> 0x22 \<and> char \<noteq> 0x5C
      then (case characterEscapingBehavior of
              None \<Rightarrow> Inl NilPointerDereference
            | Some behavior \<Rightarrow>
                if UseCharacter behavior char
                then encodeString_loop_interface characterEscapingBehavior (b @ [WriteRune char]) s
                else (case shorthandStringCharacterEscapeSequences char of
                        Some shorthandEscapeSequence \<Rightarrow>
                          if UseShorthandEscapeSequence behavior char
                          then encodeString_loop_interface characterEscapingBehavior (b @ shorthandEscapeSequence) s
                          else encodeString_loop_interface characterEscapingBehavior (b @ encodeString_hex char) s
                      | None \<Rightarrow> encodeString_loop_interface characterEscapingBehavior (b @ encodeString_hex char) s))
      else (case shorthandStringCharacterEscapeSequences char of
              Some shorthandEscapeSequence \<Rightarrow>
                (case characterEscapingBehavior of
                   None \<Rightarrow> Inl NilPointerDereference
                 | Some behavior \<Rightarrow>
                     if UseShorthandEscapeSequence behavior char
                     then encodeString_loop_interface characterEscapingBehavior (b @ shorthandEscapeSequence) s
                     else encodeString_loop_interface characterEscapingBehavior (b @ encodeString_hex char) s)
            | None \<Rightarrow> encodeString_loop_interface characterEscapingBehavior (b @ encodeString_hex char) s))"

definition encodeString_interface ::
  "gostring \<Rightarrow> StringCharacterEscapingBehavior option \<Rightarrow> panic + gostring" where
  "encodeString_interface s characterEscapingBehavior =
     (case encodeString_loop_interface characterEscapingBehavior [0x22] s of
        Inl p \<Rightarrow> Inl p
      | Inr b \<Rightarrow> Inr (b @ [0x22]))"

definition ObjectBuilder_AddJSON ::
  "gostring \<Rightarrow> gostring \<Rightarrow> ObjectBuilderStruct \<Rightarrow> panic + ObjectBuilderStruct" where
  "ObjectBuilder_AddJSON name v objectBuilder =
     (case ob_b objectBuilder of
        None \<Rightarrow> Inl NilPointerDereference
      | Some b \<Rightarrow>
          (let b1 = (if length b = 0 then b @ [0x7B] else b);
               b2 = (if memberCount objectBuilder > 0 then b1 @ [0x2C] else b1)
           in case encodeString_interface name (ob_stringCharacterEscapingBehavior objectBuilder) of
                Inl p \<Rightarrow> Inl p
              | Inr encodedName \<Rightarrow>
                  Inr (objectBuilder\<lparr>ob_b := Some (b2 @ encodedName @ [0x3A] @ v),
                                       memberCount := memberCount objectBuilder + 1\<rparr>)))"

definition ObjectBuilder_AddString ::
  "gostring \<Rightarrow> gostring \<Rightarrow> ObjectBuilderStruct \<Rightarrow> panic + ObjectBuilderStruct" where
  "ObjectBuilder_AddString name v objectBuilder =
     (case encodeString_interface v (ob_stringCharacterEscapingBehavior objectBuilder) of
        Inl p \<Rightarrow> Inl p
      | Inr encoded \<Rightarrow> ObjectBuilder_AddJSON name encoded objectBuilder)"

definition ObjectBuilder_AddBool ::
  "gostring \<Rightarrow> bool \<Rightarrow> ObjectBuilderStruct \<Rightarrow> panic + ObjectBuilderStruct" where
  "ObjectBuilder_AddBool name v objectBuilder =
     (if v then ObjectBuilder_AddJSON name (gs ''true'') objectBuilder
      else ObjectBuilder_AddJSON name (gs ''false'') objectBuilder)"

definition ObjectBuilder_AddNull :: "gostring \<Rightarrow> ObjectBuilderStruct \<Rightarrow> panic + ObjectBuilderStruct" where
  "ObjectBuilder_AddNull name objectBuilder = ObjectBuilder_AddJSON name (gs ''null'') objectBuilder"

definition ObjectBuilder_Done :: "ObjectBuilderStruct \<Rightarrow> panic + gostring" where
  "ObjectBuilder_Done objectBuilder =
     (case ob_b objectBuilder of
        None \<Rightarrow> Inl NilPointerDereference
      | Some b \<Rightarrow> Inr (if length b = 0 then gs ''{}'' else b @ [0x7D]))"

text \<open>
  An array builder is made by \<^verbatim>\<open>NewArrayBuilder\<close> only, which allocates the buffer; its
  behavior is the one that the caller of \<^verbatim>\<open>ArrayStruct.String\<close> passes.
\<close>

record ArrayBuilderStruct =
  ab_b :: gostring
  ab_stringCharacterEscapingBehavior :: StringCharacterEscapingBehavior
  elementCount :: int

definition NewArrayBuilder :: "StringCharacterEscapingBehavior \<Rightarrow> ArrayBuilderStruct" where
  "NewArrayBuilder stringCharacterEscapingBehavior =
     \<lparr>ab_b = [], ab_stringCharacterEscapingBehavior = stringCharacterEscapingBehavior, elementCount = 0\<rparr>"

definition ArrayBuilder_AddJSON :: "gostring \<Rightarrow> ArrayBuilderStruct \<Rightarrow> ArrayBuilderStruct" where
  "ArrayBuilder_AddJSON v arrayBuilder =
     (let b1 = (if length (ab_b arrayBuilder) = 0 then ab_b arrayBuilder @ [0x5B] else ab_b arrayBuilder);
          b2 = (if elementCount arrayBuilder > 0 then b1 @ [0x2C] else b1)
      in arrayBuilder\<lparr>ab_b := b2 @ v, elementCount := elementCount arrayBuilder + 1\<rparr>)"

definition ArrayBuilder_AddString :: "gostring \<Rightarrow> ArrayBuilderStruct \<Rightarrow> ArrayBuilderStruct" where
  "ArrayBuilder_AddString v arrayBuilder =
     ArrayBuilder_AddJSON (encodeString v (ab_stringCharacterEscapingBehavior arrayBuilder)) arrayBuilder"

definition ArrayBuilder_AddBool :: "bool \<Rightarrow> ArrayBuilderStruct \<Rightarrow> ArrayBuilderStruct" where
  "ArrayBuilder_AddBool v arrayBuilder =
     (if v then ArrayBuilder_AddJSON (gs ''true'') arrayBuilder
      else ArrayBuilder_AddJSON (gs ''false'') arrayBuilder)"

definition ArrayBuilder_AddNull :: "ArrayBuilderStruct \<Rightarrow> ArrayBuilderStruct" where
  "ArrayBuilder_AddNull arrayBuilder = ArrayBuilder_AddJSON (gs ''null'') arrayBuilder"

definition ArrayBuilder_Done :: "ArrayBuilderStruct \<Rightarrow> gostring" where
  "ArrayBuilder_Done arrayBuilder =
     (if length (ab_b arrayBuilder) = 0 then gs ''[]'' else ab_b arrayBuilder @ [0x5D])"

section \<open>The value model\<close>

text \<open>
  \<^verbatim>\<open>ObjectStruct\<close> and \<^verbatim>\<open>ArrayStruct\<close> hold one map per value kind; an object also
  holds its keys in insertion order and an array its length. The two types contain each
  other. The zero value \<^verbatim>\<open>ObjectStruct{}\<close> or \<^verbatim>\<open>ArrayStruct{}\<close> has six nil maps.
  Values are copied here where the Go code shares the maps of a nested container with
  the variable it was inserted from.
\<close>

datatype ObjectStruct = ObjectStruct
  (obj_strings: "(gostring, gostring) gomap")
  (obj_numbers: "(gostring, gostring) gomap")
  (obj_bools: "(gostring, bool) gomap")
  (obj_nulls: "(gostring, unit) gomap")
  (obj_objects: "(gostring, ObjectStruct) gomap")
  (obj_arrays: "(gostring, ArrayStruct) gomap")
  (obj_keys: "gostring list")
and ArrayStruct = ArrayStruct
  (arr_strings: "(int, gostring) gomap")
  (arr_numbers: "(int, gostring) gomap")
  (arr_bools: "(int, bool) gomap")
  (arr_nulls: "(int, unit) gomap")
  (arr_objects: "(int, ObjectStruct) gomap")
  (arr_arrays: "(int, ArrayStruct) gomap")
  (arr_length: int)

subsection \<open>Objects\<close>

definition zero_ObjectStruct :: ObjectStruct where
  "zero_ObjectStruct = ObjectStruct None None None None None None []"

definition Has :: "ObjectStruct \<Rightarrow> gostring \<Rightarrow> bool" where
  "Has object key =
     (if go_lookup (obj_strings object) key \<noteq> None then True
      else if go_lookup (obj_numbers object) key \<noteq> None then True
      else if go_lookup (obj_bools object) key \<noteq> None then True
      else if go_lookup (obj_nulls object) key \<noteq> None then True
      else if go_lookup (obj_objects object) key \<noteq> None then True
      else if go_lookup (obj_arrays object) key \<noteq> None then True
      else False)"

fun addKey :: "gostring \<Rightarrow> ObjectStruct \<Rightarrow> ObjectStruct" where
  "addKey key (ObjectStruct strings numbers bools nulls objects arrays keys) =
     (if go_lookup strings key \<noteq> None
        then ObjectStruct (go_delete strings key) numbers bools nulls objects arrays keys
      else if go_lookup numbers key \<noteq> None
        then ObjectStruct strings (go_delete numbers key) bools nulls objects arrays keys
      else if go_lookup nulls key \<noteq> None
        then ObjectStruct strings numbers bools (go_delete nulls key) objects arrays keys
      else if go_lookup bools key \<noteq> None
        then ObjectStruct strings numbers (go_delete bools key) nulls objects arrays keys
      else if go_lookup objects key \<noteq> None
        then ObjectStruct strings numbers bools nulls (go_delete objects key) arrays keys
      else if go_lookup arrays key \<noteq> None
        then ObjectStruct strings numbers bools nulls objects (go_delete arrays key) keys
      else ObjectStruct strings numbers bools nulls objects arrays (keys @ [key]))"

text \<open>
  Each setter calls \<^verbatim>\<open>addKey\<close>, makes its map if it is nil, and assigns; the map is
  not nil at the assignment, which therefore cannot panic.
\<close>

definition Object_SetString :: "gostring \<Rightarrow> gostring \<Rightarrow> ObjectStruct \<Rightarrow> ObjectStruct" where
  "Object_SetString key v object =
     (case addKey key object of ObjectStruct strings numbers bools nulls objects arrays keys \<Rightarrow>
        ObjectStruct (Some ((go_make_if_nil strings)(key \<mapsto> v))) numbers bools nulls objects arrays keys)"

definition Object_GetString :: "ObjectStruct \<Rightarrow> gostring \<Rightarrow> error + gostring" where
  "Object_GetString object key =
     (if obj_strings object = None then Inl NoMatchingMember
      else case go_lookup (obj_strings object) key of
             None \<Rightarrow> Inl NoMatchingMember
           | Some v \<Rightarrow> Inr v)"

definition Object_SetNumber :: "gostring \<Rightarrow> gostring \<Rightarrow> ObjectStruct \<Rightarrow> ObjectStruct" where
  "Object_SetNumber key v object =
     (case addKey key object of ObjectStruct strings numbers bools nulls objects arrays keys \<Rightarrow>
        ObjectStruct strings (Some ((go_make_if_nil numbers)(key \<mapsto> v))) bools nulls objects arrays keys)"

definition Object_GetNumber :: "ObjectStruct \<Rightarrow> gostring \<Rightarrow> error + gostring" where
  "Object_GetNumber object key =
     (if obj_numbers object = None then Inl NoMatchingMember
      else case go_lookup (obj_numbers object) key of
             None \<Rightarrow> Inl NoMatchingMember
           | Some v \<Rightarrow> Inr v)"

text \<open>An \<^verbatim>\<open>int32\<close> is a 32-bit word read as two's complement.\<close>

definition Object_SetInt32 :: "gostring \<Rightarrow> 32 word \<Rightarrow> ObjectStruct \<Rightarrow> ObjectStruct" where
  "Object_SetInt32 key v object = Object_SetNumber key (FormatInt (sint v)) object"

definition Object_GetInt32 :: "ObjectStruct \<Rightarrow> gostring \<Rightarrow> error + 32 word" where
  "Object_GetInt32 object key =
     (if obj_numbers object = None then Inl NoMatchingMember
      else case go_lookup (obj_numbers object) key of
             None \<Rightarrow> Inl NoMatchingMember
           | Some v \<Rightarrow>
               (case ParseUint v 32 of
                  Inl err \<Rightarrow> Inl NoMatchingMember
                | Inr parsed \<Rightarrow> Inr (of_nat parsed)))"

definition Object_SetBool :: "gostring \<Rightarrow> bool \<Rightarrow> ObjectStruct \<Rightarrow> ObjectStruct" where
  "Object_SetBool key v object =
     (case addKey key object of ObjectStruct strings numbers bools nulls objects arrays keys \<Rightarrow>
        ObjectStruct strings numbers (Some ((go_make_if_nil bools)(key \<mapsto> v))) nulls objects arrays keys)"

definition Object_GetBool :: "ObjectStruct \<Rightarrow> gostring \<Rightarrow> error + bool" where
  "Object_GetBool object key =
     (if obj_bools object = None then Inl NoMatchingMember
      else case go_lookup (obj_bools object) key of
             None \<Rightarrow> Inl NoMatchingMember
           | Some v \<Rightarrow> Inr v)"

definition Object_SetJSONObject :: "gostring \<Rightarrow> ObjectStruct \<Rightarrow> ObjectStruct \<Rightarrow> ObjectStruct" where
  "Object_SetJSONObject key v object =
     (case addKey key object of ObjectStruct strings numbers bools nulls objects arrays keys \<Rightarrow>
        ObjectStruct strings numbers bools nulls (Some ((go_make_if_nil objects)(key \<mapsto> v))) arrays keys)"

definition Object_GetJSONObject :: "ObjectStruct \<Rightarrow> gostring \<Rightarrow> error + ObjectStruct" where
  "Object_GetJSONObject object key =
     (if obj_objects object = None then Inl NoMatchingMember
      else case go_lookup (obj_objects object) key of
             None \<Rightarrow> Inl NoMatchingMember
           | Some v \<Rightarrow> Inr v)"

definition Object_SetJSONArray :: "gostring \<Rightarrow> ArrayStruct \<Rightarrow> ObjectStruct \<Rightarrow> ObjectStruct" where
  "Object_SetJSONArray key v object =
     (case addKey key object of ObjectStruct strings numbers bools nulls objects arrays keys \<Rightarrow>
        ObjectStruct strings numbers bools nulls objects (Some ((go_make_if_nil arrays)(key \<mapsto> v))) keys)"

definition Object_GetJSONArray :: "ObjectStruct \<Rightarrow> gostring \<Rightarrow> error + ArrayStruct" where
  "Object_GetJSONArray object key =
     (if obj_arrays object = None then Inl NoMatchingMember
      else case go_lookup (obj_arrays object) key of
             None \<Rightarrow> Inl NoMatchingMember
           | Some v \<Rightarrow> Inr v)"

definition Object_SetNull :: "gostring \<Rightarrow> ObjectStruct \<Rightarrow> ObjectStruct" where
  "Object_SetNull key object =
     (case addKey key object of ObjectStruct strings numbers bools nulls objects arrays keys \<Rightarrow>
        ObjectStruct strings numbers bools (Some ((go_make_if_nil nulls)(key \<mapsto> ()))) objects arrays keys)"

definition Object_IsNull :: "ObjectStruct \<Rightarrow> gostring \<Rightarrow> error + bool" where
  "Object_IsNull object key =
     (case go_lookup (obj_nulls object) key of
        None \<Rightarrow> Inl NoMatchingMember
      | Some _ \<Rightarrow> Inr True)"

subsection \<open>Arrays\<close>

text \<open>
  A method of \<^verbatim>\<open>ArrayStruct\<close> that can panic returns the panic, if any, together with
  the array as the call leaves it. \<^verbatim>\<open>length\<close> is a Go \<^verbatim>\<open>int\<close>; it only grows by
  one per append and is an unbounded integer here.
\<close>

definition zero_ArrayStruct :: ArrayStruct where
  "zero_ArrayStruct = ArrayStruct None None None None None None 0"

definition NewArray :: ArrayStruct where
  "NewArray = ArrayStruct (Some Map.empty) (Some Map.empty) (Some Map.empty)
                (Some Map.empty) (Some Map.empty) (Some Map.empty) 0"

definition Length :: "ArrayStruct \<Rightarrow> int" where
  "Length array = arr_length array"

fun removeElement :: "int \<Rightarrow> ArrayStruct \<Rightarrow> ArrayStruct" where
  "removeElement index (ArrayStruct strings numbers bools nulls objects arrays len) =
     ArrayStruct (go_delete strings index) (go_delete numbers index) (go_delete bools index)
       (go_delete nulls index) (go_delete objects index) (go_delete arrays index) len"

definition Array_SetString :: "int \<Rightarrow> gostring \<Rightarrow> ArrayStruct \<Rightarrow> panic option \<times> ArrayStruct" where
  "Array_SetString index v array =
     (if index \<ge> arr_length array then (Some OutOfBounds, array)
      else case removeElement index array of ArrayStruct strings numbers bools nulls objects arrays len \<Rightarrow>
        (case go_assign strings index v of
           Inl p \<Rightarrow> (Some p, ArrayStruct strings numbers bools nulls objects arrays len)
         | Inr strings' \<Rightarrow> (None, ArrayStruct strings' numbers bools nulls objects arrays len)))"

definition Array_AddString :: "gostring \<Rightarrow> ArrayStruct \<Rightarrow> panic option \<times> ArrayStruct" where
  "Array_AddString v array =
     (case array of ArrayStruct strings numbers bools nulls objects arrays len \<Rightarrow>
        (case go_assign strings len v of
           Inl p \<Rightarrow> (Some p, array)
         | Inr strings' \<Rightarrow> (None, ArrayStruct strings' numbers bools nulls objects arrays (len + 1))))"

definition Array_GetString :: "ArrayStruct \<Rightarrow> int \<Rightarrow> error + gostring" where
  "Array_GetString array index =
     (case go_lookup (arr_strings array) index of
        None \<Rightarrow> Inl NoMatchingMember
      | Some v \<Rightarrow> Inr v)"

definition Array_SetNumber :: "int \<Rightarrow> gostring \<Rightarrow> ArrayStruct \<Rightarrow> panic option \<times> ArrayStruct" where
  "Array_SetNumber index v array =
     (if index \<ge> arr_length array then (Some OutOfBounds, array)
      else case removeElement index array of ArrayStruct strings numbers bools nulls objects arrays len \<Rightarrow>
        (case go_assign numbers index v of
           Inl p \<Rightarrow> (Some p, ArrayStruct strings numbers bools nulls objects arrays len)
         | Inr numbers' \<Rightarrow> (None, ArrayStruct strings numbers' bools nulls objects arrays len)))"

definition Array_AddNumber :: "gostring \<Rightarrow> ArrayStruct \<Rightarrow> panic option \<times> ArrayStruct" where
  "Array_AddNumber v array =
     (case array of ArrayStruct strings numbers bools nulls objects arrays len \<Rightarrow>
        (case go_assign numbers len v of
           Inl p \<Rightarrow> (Some p, array)
         | Inr numbers' \<Rightarrow> (None, ArrayStruct strings numbers' bools nulls objects arrays (len + 1))))"

definition Array_GetNumber :: "ArrayStruct \<Rightarrow> int \<Rightarrow> error + gostring" where
  "Array_GetNumber array index =
     (case go_lookup (arr_numbers array) index of
        None \<Rightarrow> Inl NoMatchingMember
      | Some v \<Rightarrow> Inr v)"

definition Array_SetInt32 :: "int \<Rightarrow> 32 word \<Rightarrow> ArrayStruct \<Rightarrow> panic option \<times> ArrayStruct" where
  "Array_SetInt32 index v array = Array_SetNumber index (FormatInt (sint v)) array"

definition Array_AddInt32 :: "32 word \<Rightarrow> ArrayStruct \<Rightarrow> panic option \<times> ArrayStruct" where
  "Array_AddInt32 v array = Array_AddNumber (FormatInt (sint v)) array"

definition Array_GetInt32 :: "ArrayStruct \<Rightarrow> int \<Rightarrow> error + 32 word" where
  "Array_GetInt32 array key =
     (case Array_GetNumber array key of
        Inl err \<Rightarrow> Inl (FailedToGetNumber err)
      | Inr v \<Rightarrow>
          (case ParseInt v 32 of
             Inl err \<Rightarrow> Inl (FailedToParseInt32 err)
           | Inr parsed \<Rightarrow> Inr (of_int parsed)))"

definition Array_SetBool :: "int \<Rightarrow> bool \<Rightarrow> ArrayStruct \<Rightarrow> panic option \<times> ArrayStruct" where
  "Array_SetBool index v array =
     (if index \<ge> arr_length array then (Some OutOfBounds, array)
      else case removeElement index array of ArrayStruct strings numbers bools nulls objects arrays len \<Rightarrow>
        (case go_assign bools index v of
           Inl p \<Rightarrow> (Some p, ArrayStruct strings numbers bools nulls objects arrays len)
         | Inr bools' \<Rightarrow> (None, ArrayStruct strings numbers bools' nulls objects arrays len)))"

definition Array_AddBool :: "bool \<Rightarrow> ArrayStruct \<Rightarrow> panic option \<times> ArrayStruct" where
  "Array_AddBool v array =
     (case array of ArrayStruct strings numbers bools nulls objects arrays len \<Rightarrow>
        (case go_assign bools len v of
           Inl p \<Rightarrow> (Some p, array)
         | Inr bools' \<Rightarrow> (None, ArrayStruct strings numbers bools' nulls objects arrays (len + 1))))"

definition Array_GetBool :: "ArrayStruct \<Rightarrow> int \<Rightarrow> error + bool" where
  "Array_GetBool array index =
     (case go_lookup (arr_bools array) index of
        None \<Rightarrow> Inl NoMatchingMember
      | Some v \<Rightarrow> Inr v)"

definition Array_SetJSONObject :: "int \<Rightarrow> ObjectStruct \<Rightarrow> ArrayStruct \<Rightarrow> panic option \<times> ArrayStruct" where
  "Array_SetJSONObject index v array =
     (if index \<ge> arr_length array then (Some OutOfBounds, array)
      else case removeElement index array of ArrayStruct strings numbers bools nulls objects arrays len \<Rightarrow>
        (case go_assign objects index v of
           Inl p \<Rightarrow> (Some p, ArrayStruct strings numbers bools nulls objects arrays len)
         | Inr objects' \<Rightarrow> (None, ArrayStruct strings numbers bools nulls objects' arrays len)))"

definition Array_AddJSONObject :: "ObjectStruct \<Rightarrow> ArrayStruct \<Rightarrow> panic option \<times> ArrayStruct" where
  "Array_AddJSONObject v array =
     (case array of ArrayStruct strings numbers bools nulls objects arrays len \<Rightarrow>
        (case go_assign objects len v of
           Inl p \<Rightarrow> (Some p, array)
         | Inr objects' \<Rightarrow> (None, ArrayStruct strings numbers bools nulls objects' arrays (len + 1))))"

definition Array_GetJSONObject :: "ArrayStruct \<Rightarrow> int \<Rightarrow> error + ObjectStruct" where
  "Array_GetJSONObject array index =
     (case go_lookup (arr_objects array) index of
        None \<Rightarrow> Inl NoMatchingMember
      | Some v \<Rightarrow> Inr v)"

definition Array_SetJSONArray :: "int \<Rightarrow> ArrayStruct \<Rightarrow> ArrayStruct \<Rightarrow> panic option \<times> ArrayStruct" where
  "Array_SetJSONArray index v array =
     (if index \<ge> arr_length array then (Some OutOfBounds, array)
      else case removeElement index array of ArrayStruct strings numbers bools nulls objects arrays len \<Rightarrow>
        (case go_assign arrays index v of
           Inl p \<Rightarrow> (Some p, ArrayStruct strings numbers bools nulls objects arrays len)
         | Inr arrays' \<Rightarrow> (None, ArrayStruct strings numbers bools nulls objects arrays' len)))"

definition Array_AddJSONArray :: "ArrayStruct \<Rightarrow> ArrayStruct \<Rightarrow> panic option \<times> ArrayStruct" where
  "Array_AddJSONArray v array =
     (case array of ArrayStruct strings numbers bools nulls objects arrays len \<Rightarrow>
        (case go_assign arrays len v of
           Inl p \<Rightarrow> (Some p, array)
         | Inr arrays' \<Rightarrow> (None, ArrayStruct strings numbers bools nulls objects arrays' (len + 1))))"

definition Array_GetJSONArray :: "ArrayStruct \<Rightarrow> int \<Rightarrow> error + ArrayStruct" where
  "Array_GetJSONArray array index =
     (case go_lookup (arr_arrays array) index of
        None \<Rightarrow> Inl NoMatchingMember
      | Some v \<Rightarrow> Inr v)"

definition Array_SetNull :: "int \<Rightarrow> ArrayStruct \<Rightarrow> panic option \<times> ArrayStruct" where
  "Array_SetNull index array =
     (if index \<ge> arr_length array then (Some OutOfBounds, array)
      else case removeElement index array of ArrayStruct strings numbers bools nulls objects arrays len \<Rightarrow>
        (case go_assign nulls index () of
           Inl p \<Rightarrow> (Some p, ArrayStruct strings numbers bools nulls objects arrays len)
         | Inr nulls' \<Rightarrow> (None, ArrayStruct strings numbers bools nulls' objects arrays len)))"

definition Array_AddNull :: "ArrayStruct \<Rightarrow> panic option \<times> ArrayStruct" where
  "Array_AddNull array =
     (case array of ArrayStruct strings numbers bools nulls objects arrays len \<Rightarrow>
        (case go_assign nulls len () of
           Inl p \<Rightarrow> (Some p, array)
         | Inr nulls' \<Rightarrow> (None, ArrayStruct strings numbers bools nulls' objects arrays (len + 1))))"

definition Array_IsNull :: "ArrayStruct \<Rightarrow> int \<Rightarrow> error + bool" where
  "Array_IsNull array index =
     (case go_lookup (arr_nulls array) index of
        None \<Rightarrow> Inl NoMatchingMember
      | Some _ \<Rightarrow> Inr True)"

subsection \<open>Serialization\<close>

text \<open>
  \<^verbatim>\<open>ObjectStruct.String\<close> and \<^verbatim>\<open>ArrayStruct.String\<close> walk the keys, or the indices below
  \<^verbatim>\<open>length\<close>, and add the first kind found for each to a builder. The text of a nested
  container is the result of its own \<^verbatim>\<open>String\<close>, a text or a panic; the loops below
  receive these results as maps \<open>objectTexts\<close> and \<open>arrayTexts\<close> in place of the maps of
  nested containers, and a turn that reaches a panic ends in it.

  \<^verbatim>\<open>ArrayStruct.String\<close> takes the escaping behavior and starts from \<^verbatim>\<open>NewArrayBuilder\<close>.
  \<^verbatim>\<open>ObjectStruct.String\<close> takes no argument and starts from the zero value
  \<^verbatim>\<open>ObjectBuilderStruct{}\<close>, whose buffer and behavior are nil. Its call
  \<^verbatim>\<open>value.String()\<close> on an embedded array is written without the argument that
  \<^verbatim>\<open>ArrayStruct.String\<close> takes, and \<^verbatim>\<open>ArrayStruct.String\<close> calls it with one: that
  argument is the first parameter of \<open>Object_String\<close>, which hands it to the embedded
  arrays and uses it for nothing else.
\<close>

fun Object_String_loop ::
  "(gostring, gostring) gomap \<Rightarrow> (gostring, gostring) gomap \<Rightarrow> (gostring, bool) gomap \<Rightarrow>
   (gostring, unit) gomap \<Rightarrow> (gostring, panic + gostring) gomap \<Rightarrow>
   (gostring, panic + gostring) gomap \<Rightarrow>
   gostring list \<Rightarrow> ObjectBuilderStruct \<Rightarrow> panic + ObjectBuilderStruct" where
  "Object_String_loop strings numbers bools nulls objectTexts arrayTexts [] builder = Inr builder"
| "Object_String_loop strings numbers bools nulls objectTexts arrayTexts (key # keys) builder =
     (case
        (case go_lookup strings key of Some v \<Rightarrow> ObjectBuilder_AddString key v builder
         | None \<Rightarrow>
         (case go_lookup numbers key of Some v \<Rightarrow> ObjectBuilder_AddJSON key v builder
         | None \<Rightarrow>
         (case go_lookup bools key of Some v \<Rightarrow> ObjectBuilder_AddBool key v builder
         | None \<Rightarrow>
         (case go_lookup nulls key of Some _ \<Rightarrow> ObjectBuilder_AddNull key builder
         | None \<Rightarrow>
         (case go_lookup objectTexts key of
            Some (Inl p) \<Rightarrow> Inl p
          | Some (Inr v) \<Rightarrow> ObjectBuilder_AddJSON key v builder
          | None \<Rightarrow>
         (case go_lookup arrayTexts key of
            Some (Inl p) \<Rightarrow> Inl p
          | Some (Inr v) \<Rightarrow> ObjectBuilder_AddJSON key v builder
          | None \<Rightarrow> Inr builder))))))
      of
        Inl p \<Rightarrow> Inl p
      | Inr builder' \<Rightarrow>
          Object_String_loop strings numbers bools nulls objectTexts arrayTexts keys builder')"

function Array_String_loop ::
  "(int, gostring) gomap \<Rightarrow> (int, gostring) gomap \<Rightarrow> (int, bool) gomap \<Rightarrow>
   (int, unit) gomap \<Rightarrow> (int, panic + gostring) gomap \<Rightarrow> (int, panic + gostring) gomap \<Rightarrow>
   int \<Rightarrow> int \<Rightarrow> ArrayBuilderStruct \<Rightarrow> panic + ArrayBuilderStruct" where
  "Array_String_loop strings numbers bools nulls objectTexts arrayTexts len i builder =
     (if i < len then
        (case
           (case go_lookup strings i of Some v \<Rightarrow> Inr (ArrayBuilder_AddString v builder)
            | None \<Rightarrow>
            (case go_lookup numbers i of Some v \<Rightarrow> Inr (ArrayBuilder_AddJSON v builder)
            | None \<Rightarrow>
            (case go_lookup bools i of Some v \<Rightarrow> Inr (ArrayBuilder_AddBool v builder)
            | None \<Rightarrow>
            (case go_lookup nulls i of Some _ \<Rightarrow> Inr (ArrayBuilder_AddNull builder)
            | None \<Rightarrow>
            (case go_lookup objectTexts i of
               Some (Inl p) \<Rightarrow> Inl p
             | Some (Inr v) \<Rightarrow> Inr (ArrayBuilder_AddJSON v builder)
             | None \<Rightarrow>
            (case go_lookup arrayTexts i of
               Some (Inl p) \<Rightarrow> Inl p
             | Some (Inr v) \<Rightarrow> Inr (ArrayBuilder_AddJSON v builder)
             | None \<Rightarrow> Inr builder))))))
         of
           Inl p \<Rightarrow> Inl p
         | Inr builder' \<Rightarrow>
             Array_String_loop strings numbers bools nulls objectTexts arrayTexts len (i + 1) builder')
      else Inr builder)"
  by pat_completeness auto
termination
  by (relation "measure (\<lambda>(strings, numbers, bools, nulls, objectTexts, arrayTexts, len, i, builder). nat (len - i))") auto

declare Array_String_loop.simps [simp del]

primrec Object_String :: "StringCharacterEscapingBehavior \<Rightarrow> ObjectStruct \<Rightarrow> panic + gostring"
  and Array_String :: "StringCharacterEscapingBehavior \<Rightarrow> ArrayStruct \<Rightarrow> panic + gostring" where
  "Object_String stringCharacterEscapingBehavior (ObjectStruct strings numbers bools nulls objects arrays keys) =
     (case Object_String_loop strings numbers bools nulls
             (map_option (\<lambda>m. map_option (Object_String stringCharacterEscapingBehavior) \<circ> m) objects)
             (map_option (\<lambda>m. map_option (Array_String stringCharacterEscapingBehavior) \<circ> m) arrays)
             keys zero_ObjectBuilderStruct of
        Inl p \<Rightarrow> Inl p
      | Inr builder \<Rightarrow> ObjectBuilder_Done builder)"
| "Array_String stringCharacterEscapingBehavior (ArrayStruct strings numbers bools nulls objects arrays len) =
     (case Array_String_loop strings numbers bools nulls
             (map_option (\<lambda>m. map_option (Object_String stringCharacterEscapingBehavior) \<circ> m) objects)
             (map_option (\<lambda>m. map_option (Array_String stringCharacterEscapingBehavior) \<circ> m) arrays)
             len 0 (NewArrayBuilder stringCharacterEscapingBehavior) of
        Inl p \<Rightarrow> Inl p
      | Inr builder \<Rightarrow> Inr (ArrayBuilder_Done builder))"

section \<open>The parser\<close>

text \<open>
  The parser reads from a \<^verbatim>\<open>strings.Reader\<close> through \<^verbatim>\<open>io.RuneScanner\<close>. The reader is
  the sequence of runes not yet read: \<^verbatim>\<open>ReadRune\<close> takes the first one and fails only at
  the end of the input (\<^verbatim>\<open>io.EOF\<close>, the empty list). Every \<^verbatim>\<open>UnreadRune\<close> of the parser
  follows a successful \<^verbatim>\<open>ReadRune\<close>, where it cannot fail, and puts that rune back.
\<close>

type_synonym reader = "rune list"

definition UnreadRune :: "rune \<Rightarrow> reader \<Rightarrow> reader" where
  "UnreadRune char r = char # r"

definition string_of_runes :: "rune list \<Rightarrow> gostring" where
  "string_of_runes extracted = map WriteRune extracted"

definition isIdentifierCharacter :: "rune \<Rightarrow> bool" where
  "isIdentifierCharacter r =
     (if r \<ge> 0x41 \<and> r \<le> 0x5A then True
      else if r \<ge> 0x61 \<and> r \<le> 0x7A then True
      else False)"

fun skipWhitespace :: "reader \<Rightarrow> error + reader" where
  "skipWhitespace [] = Inr []"
| "skipWhitespace (char # r) =
     (if char = ReplacementChar then Inl InvalidEncoding
      else if char = 0x09 \<or> char = 0x0A \<or> char = 0x20 \<or> char = 0x0D then skipWhitespace r
      else Inr (UnreadRune char r))"

fun parseEnd :: "reader \<Rightarrow> error + unit" where
  "parseEnd [] = Inr ()"
| "parseEnd (char # r) =
     (if char = ReplacementChar then Inl InvalidEncoding
      else if char = 0x09 \<or> char = 0x0A \<or> char = 0x20 \<or> char = 0x0D then parseEnd r
      else Inl UnexpectedCharacterAtEnd)"

subsection \<open>Strings\<close>

text \<open>The four hexadecimal digits of a \<^verbatim>\<open>\\u\<close> escape: \<^verbatim>\<open>for i := range 4\<close>.\<close>

function parseString_hex :: "nat \<Rightarrow> rune \<Rightarrow> reader \<Rightarrow> error + (rune \<times> reader)" where
  "parseString_hex i decoded r =
     (if i < 4 then
        (case r of
           [] \<Rightarrow> Inl FailedToReadRune
         | char # r' \<Rightarrow>
             if char \<ge> 0x30 \<and> char \<le> 0x39
               then parseString_hex (i + 1) (decoded OR push_bit ((3 - i) * 4) (char - 0x30)) r'
             else if char \<ge> 0x41 \<and> char \<le> 0x46
               then parseString_hex (i + 1) (decoded OR push_bit ((3 - i) * 4) (char - 0x41 + 10)) r'
             else if char \<ge> 0x61 \<and> char \<le> 0x66
               then parseString_hex (i + 1) (decoded OR push_bit ((3 - i) * 4) (char - 0x61 + 10)) r'
             else Inl InvalidHexEncoding)
      else Inr (decoded, r))"
  by pat_completeness auto
termination
  by (relation "measure (\<lambda>(i, decoded, r). 4 - i)") auto

declare parseString_hex.simps [simp del]

lemma parseString_hex_length:
  "parseString_hex i decoded r = Inr (d, r') \<Longrightarrow> length r' \<le> length r"
proof (induction i decoded r rule: parseString_hex.induct)
  case (1 i decoded r)
  show ?case
  proof (cases "i < 4")
    case True
    with "1.prems" obtain char r1 where r: "r = char # r1"
      by (cases r) (auto simp: parseString_hex.simps [of i decoded "[]"])
    from "1.prems" True r "1.IH" [OF True r] show ?thesis
      by (subst (asm) parseString_hex.simps) (auto split: if_splits)
  next
    case False
    with "1.prems" show ?thesis
      by (subst (asm) parseString_hex.simps) simp
  qed
qed

text \<open>
  The loop of \<^verbatim>\<open>parseString\<close> after the opening quote; \<open>prevHex\<close> is the pending
  surrogate and \<open>b\<close> the text built so far.
\<close>

function parseString_loop :: "rune \<Rightarrow> gostring \<Rightarrow> reader \<Rightarrow> error + (gostring \<times> reader)" where
  "parseString_loop prevHex b r =
     (case r of
        [] \<Rightarrow> Inl FailedToReadRune
      | char # r1 \<Rightarrow>
          if char = 0x22 then
            (if prevHex > 0 then Inl (UnexpectedCharacter char) else Inr (b, r1))
          else if char = 0x5C then
            (case r1 of
               [] \<Rightarrow> Inl FailedToReadRune
             | char # r2 \<Rightarrow>
                 if char = 0x75 then
                   (case parseString_hex 0 0 r2 of
                      Inl e \<Rightarrow> Inl e
                    | Inr (decoded, r3) \<Rightarrow>
                        if prevHex > 0 then
                          (if utf16_DecodeRune prevHex decoded = ReplacementChar
                           then Inl InvalidCharacterEncoding
                           else parseString_loop 0
                                  (b @ [WriteRune (utf16_DecodeRune prevHex decoded)]) r3)
                        else if utf16_IsSurrogate decoded then parseString_loop decoded b r3
                        else parseString_loop prevHex (b @ [WriteRune decoded]) r3)
                 else if prevHex > 0 then Inl ExpectedHexEncoding
                 else if char = 0x22 \<or> char = 0x5C \<or> char = 0x2F
                   then parseString_loop prevHex (b @ [WriteRune char]) r2
                 else if char = 0x62 then parseString_loop prevHex (b @ [WriteRune 0x08]) r2
                 else if char = 0x66 then parseString_loop prevHex (b @ [WriteRune 0x0C]) r2
                 else if char = 0x6E then parseString_loop prevHex (b @ [WriteRune 0x0A]) r2
                 else if char = 0x72 then parseString_loop prevHex (b @ [WriteRune 0x0D]) r2
                 else if char = 0x74 then parseString_loop prevHex (b @ [WriteRune 0x09]) r2
                 else Inl (UnexpectedEscapeCharacter char))
          else if prevHex > 0 then Inl ExpectedHexEncoding
          else if char < 0x20 \<or> char > 0x10FFFF then Inl InvalidCharacter
          else parseString_loop prevHex (b @ [WriteRune char]) r1)"
  by pat_completeness auto
termination
  by (relation "measure (\<lambda>(prevHex, b, r). length r)")
     (auto dest: parseString_hex_length)

declare parseString_loop.simps [simp del]

definition parseString :: "reader \<Rightarrow> error + (gostring \<times> reader)" where
  "parseString r =
     (case r of
        [] \<Rightarrow> Inl FailedToReadRune
      | char # r1 \<Rightarrow>
          if char = ReplacementChar then Inl InvalidEncoding
          else if char \<noteq> 0x22 then Inl (UnexpectedCharacter char)
          else parseString_loop 0 [] r1)"

subsection \<open>Numbers and identifiers\<close>

text \<open>The three digit loops of \<^verbatim>\<open>extractNumber\<close>, in the order of the source.\<close>

fun extractNumber_integerDigits :: "rune list \<Rightarrow> reader \<Rightarrow> error + (rune list \<times> reader)" where
  "extractNumber_integerDigits extracted [] = Inl FailedToReadRune"
| "extractNumber_integerDigits extracted (char # r) =
     (if char = ReplacementChar then Inl InvalidCharacterEncoding
      else if \<not> isDigitCharacter char then Inr (extracted, UnreadRune char r)
      else extractNumber_integerDigits (extracted @ [char]) r)"

fun extractNumber_fractionDigits :: "rune list \<Rightarrow> reader \<Rightarrow> error + (rune list \<times> reader)" where
  "extractNumber_fractionDigits extracted [] = Inl FailedToReadRune"
| "extractNumber_fractionDigits extracted (char # r) =
     (if char = ReplacementChar then Inl InvalidEncoding
      else if \<not> isDigitCharacter char then Inr (extracted, UnreadRune char r)
      else extractNumber_fractionDigits (extracted @ [char]) r)"

fun extractNumber_exponentDigits :: "rune list \<Rightarrow> reader \<Rightarrow> error + (rune list \<times> reader)" where
  "extractNumber_exponentDigits extracted [] = Inr (extracted, [])"
| "extractNumber_exponentDigits extracted (char # r) =
     (if char = ReplacementChar then Inl InvalidEncoding
      else if \<not> isDigitCharacter char then Inr (extracted, UnreadRune char r)
      else extractNumber_exponentDigits (extracted @ [char]) r)"

definition extractNumber :: "reader \<Rightarrow> error + (gostring \<times> reader)" where
  "extractNumber r =
     (case r of
        [] \<Rightarrow> Inl FailedToReadRune
      | char # r1 \<Rightarrow>
     if char = ReplacementChar then Inl InvalidEncoding else
     (case (if char = 0x2D then ([char], r1) else ([], UnreadRune char r1)) of (extracted, r2) \<Rightarrow>
     (case r2 of
        [] \<Rightarrow> Inl FailedToReadRune
      | char # r3 \<Rightarrow>
     if char = ReplacementChar then Inl InvalidEncoding else
     (case (if char = 0x30 then Inr (extracted @ [char], r3)
            else if char \<ge> 0x31 \<and> char \<le> 0x39
              then extractNumber_integerDigits (extracted @ [char]) r3
            else Inl (UnexpectedCharacter char)) of
        Inl e \<Rightarrow> Inl e
      | Inr (extracted, r4) \<Rightarrow>
     (case r4 of
        [] \<Rightarrow> Inr (string_of_runes extracted, [])
      | char # r5 \<Rightarrow>
     if char = ReplacementChar then Inl InvalidEncoding else
     (case (if char = 0x2E then extractNumber_fractionDigits (extracted @ [char]) r5
            else Inr (extracted, UnreadRune char r5)) of
        Inl e \<Rightarrow> Inl e
      | Inr (extracted, r6) \<Rightarrow>
     (case r6 of
        [] \<Rightarrow> Inr (string_of_runes extracted, [])
      | char # r7 \<Rightarrow>
     if char = ReplacementChar then Inl InvalidEncoding else
     if char = 0x45 \<or> char = 0x65 then
       (case r7 of
          [] \<Rightarrow> Inl FailedToReadRune
        | char' # r8 \<Rightarrow>
       if char' = ReplacementChar then Inl InvalidEncoding else
       (case (if char' = 0x2D \<or> char' = 0x2B then (extracted @ [char, char'], r8)
              else (extracted @ [char], UnreadRune char' r8)) of (extracted, r9) \<Rightarrow>
       (case r9 of
          [] \<Rightarrow> Inl FailedToReadRune
        | char # r10 \<Rightarrow>
       if char = ReplacementChar then Inl InvalidEncoding else
       if \<not> isDigitCharacter char then Inl (UnexpectedCharacter char) else
       (case extractNumber_exponentDigits (extracted @ [char]) r10 of
          Inl e \<Rightarrow> Inl e
        | Inr (extracted, r11) \<Rightarrow> Inr (string_of_runes extracted, r11)))))
     else Inr (string_of_runes extracted, UnreadRune char r7))))))))"

fun extractIdentifier_loop :: "rune list \<Rightarrow> reader \<Rightarrow> error + (rune list \<times> reader)" where
  "extractIdentifier_loop extracted [] = Inr (extracted, [])"
| "extractIdentifier_loop extracted (char # r) =
     (if char = ReplacementChar then Inl InvalidEncoding
      else if \<not> isIdentifierCharacter char then Inr (extracted, UnreadRune char r)
      else extractIdentifier_loop (extracted @ [char]) r)"

definition extractIdentifier :: "reader \<Rightarrow> error + (gostring \<times> reader)" where
  "extractIdentifier r =
     (case r of
        [] \<Rightarrow> Inl FailedToReadRune
      | char # r1 \<Rightarrow>
          if char = ReplacementChar then Inl InvalidEncoding
          else if \<not> isIdentifierCharacter char then Inl (UnexpectedCharacter char)
          else (case extractIdentifier_loop [char] r1 of
                  Inl e \<Rightarrow> Inl e
                | Inr (extracted, r2) \<Rightarrow> Inr (string_of_runes extracted, r2)))"

subsection \<open>How much of the input a call leaves\<close>

lemma skipWhitespace_length: "skipWhitespace r = Inr r' \<Longrightarrow> length r' \<le> length r"
  by (induction r rule: skipWhitespace.induct) (auto simp: UnreadRune_def split: if_splits)

lemma parseString_loop_length:
  "parseString_loop prevHex b r = Inr (s, r') \<Longrightarrow> length r' < length r"
proof (induction "length r" arbitrary: prevHex b r rule: less_induct)
  case less
  have shorter: "\<And>p b' r2. parseString_loop p b' r2 = Inr (s, r') \<Longrightarrow>
      length r2 < length r \<longrightarrow> length r' < length r2"
    using less.hyps by blast
  from less.prems show ?case
    apply (subst (asm) parseString_loop.simps)
    apply (simp split: list.splits if_splits sum.splits prod.splits)
    apply (auto dest!: shorter parseString_hex_length)
    done
qed

lemma parseString_length: "parseString r = Inr (s, r') \<Longrightarrow> length r' < length r"
  by (auto simp: parseString_def split: list.splits if_splits dest: parseString_loop_length)

lemma extractNumber_integerDigits_length:
  "extractNumber_integerDigits extracted r = Inr (e, r') \<Longrightarrow> length r' \<le> length r"
  by (induction extracted r rule: extractNumber_integerDigits.induct)
     (auto simp: UnreadRune_def split: if_splits)

lemma extractNumber_fractionDigits_length:
  "extractNumber_fractionDigits extracted r = Inr (e, r') \<Longrightarrow> length r' \<le> length r"
  by (induction extracted r rule: extractNumber_fractionDigits.induct)
     (auto simp: UnreadRune_def split: if_splits)

lemma extractNumber_exponentDigits_length:
  "extractNumber_exponentDigits extracted r = Inr (e, r') \<Longrightarrow> length r' \<le> length r"
  by (induction extracted r rule: extractNumber_exponentDigits.induct)
     (auto simp: UnreadRune_def split: if_splits)

lemma extractIdentifier_loop_length:
  "extractIdentifier_loop extracted r = Inr (e, r') \<Longrightarrow> length r' \<le> length r"
  by (induction extracted r rule: extractIdentifier_loop.induct)
     (auto simp: UnreadRune_def split: if_splits)

lemma extractIdentifier_length: "extractIdentifier r = Inr (s, r') \<Longrightarrow> length r' < length r"
  by (auto simp: extractIdentifier_def split: list.splits if_splits sum.splits
           dest: extractIdentifier_loop_length)

lemma extractNumber_length: "extractNumber r = Inr (s, r') \<Longrightarrow> length r' < length r"
  unfolding extractNumber_def
  by (auto simp: UnreadRune_def split: list.splits if_splits sum.splits prod.splits
       dest!: extractNumber_integerDigits_length extractNumber_fractionDigits_length
              extractNumber_exponentDigits_length)

subsection \<open>Objects and arrays\<close>

text \<open>
  \<^verbatim>\<open>parseEmbeddedObject\<close> and \<^verbatim>\<open>parseEmbeddedArray\<close> call each other. The \<^verbatim>\<open>for\<close> loop
  of each is a function of the container built so far and the reader, and the chain of
  \<^verbatim>\<open>if nextChar == ...\<close> inside the loop, which parses one value and stores it, is a
  function of its own (\<open>parseEmbeddedObject_value\<close>, \<open>parseEmbeddedArray_value\<close>),
  called with the reader as \<^verbatim>\<open>UnreadRune\<close> left it. An object starts as
  \<^verbatim>\<open>ObjectStruct{}\<close> and an array as \<^verbatim>\<open>ArrayStruct{}\<close>. The \<^verbatim>\<open>Add\<close> methods of an array
  can panic; the panic ends the whole parse.
\<close>

function parseEmbeddedObject :: "reader \<Rightarrow> fault + (ObjectStruct \<times> reader)"
  and parseEmbeddedObject_loop :: "ObjectStruct \<Rightarrow> reader \<Rightarrow> fault + (ObjectStruct \<times> reader)"
  and parseEmbeddedObject_value ::
    "gostring \<Rightarrow> ObjectStruct \<Rightarrow> rune \<Rightarrow> reader \<Rightarrow> fault + (ObjectStruct \<times> reader)"
  and parseEmbeddedArray :: "reader \<Rightarrow> fault + (ArrayStruct \<times> reader)"
  and parseEmbeddedArray_loop :: "ArrayStruct \<Rightarrow> reader \<Rightarrow> fault + (ArrayStruct \<times> reader)"
  and parseEmbeddedArray_value ::
    "ArrayStruct \<Rightarrow> rune \<Rightarrow> reader \<Rightarrow> fault + (ArrayStruct \<times> reader)" where
  "parseEmbeddedObject r =
     (case skipWhitespace r of
        Inl e \<Rightarrow> Inl (Err e)
      | Inr r1 \<Rightarrow>
     (case r1 of
        [] \<Rightarrow> Inl (Err FailedToReadRune)
      | char # r2 \<Rightarrow>
          if char = ReplacementChar then Inl (Err InvalidEncoding)
          else if char \<noteq> 0x7B then Inl (Err (UnexpectedCharacter char))
          else parseEmbeddedObject_loop zero_ObjectStruct r2))"
| "parseEmbeddedObject_loop object r =
     (case skipWhitespace r of
        Inl e \<Rightarrow> Inl (Err e)
      | Inr r1 \<Rightarrow>
     (case r1 of
        [] \<Rightarrow> Inl (Err FailedToReadRune)
      | char # r2 \<Rightarrow>
     if char = ReplacementChar then Inl (Err InvalidEncoding) else
     if char = 0x7D then Inr (object, r2) else
     (case parseString (UnreadRune char r2) of
        Inl e \<Rightarrow> Inl (Err (FailedToParseMemberName e))
      | Inr (key, r3) \<Rightarrow>
     if Has object key then Inl (Err (DuplicateMemberName key)) else
     (case skipWhitespace r3 of
        Inl e \<Rightarrow> Inl (Err e)
      | Inr r4 \<Rightarrow>
     (case r4 of
        [] \<Rightarrow> Inl (Err FailedToReadRune)
      | char # r5 \<Rightarrow>
     if char = ReplacementChar then Inl (Err InvalidEncoding) else
     if char \<noteq> 0x3A then Inl (Err (UnexpectedCharacter char)) else
     (case skipWhitespace r5 of
        Inl e \<Rightarrow> Inl (Err e)
      | Inr r6 \<Rightarrow>
     (case r6 of
        [] \<Rightarrow> Inl (Err FailedToReadRune)
      | nextChar # r7 \<Rightarrow>
     if char = ReplacementChar then Inl (Err InvalidEncoding) else
     (case parseEmbeddedObject_value key object nextChar (UnreadRune nextChar r7) of
        Inl f \<Rightarrow> Inl f
      | Inr (object', r8) \<Rightarrow>
     (case skipWhitespace r8 of
        Inl e \<Rightarrow> Inl (Err e)
      | Inr r9 \<Rightarrow>
     (case r9 of
        [] \<Rightarrow> Inl (Err FailedToReadRune)
      | char # r10 \<Rightarrow>
     if char = ReplacementChar then Inl (Err InvalidEncoding) else
     if char = 0x7D then Inr (object', r10) else
     if char \<noteq> 0x2C then Inl (Err (UnexpectedCharacter char)) else
     parseEmbeddedObject_loop object' r10))))))))))"
| "parseEmbeddedObject_value key object nextChar r =
     (if nextChar = 0x7B then
        (case parseEmbeddedObject r of
           Inl f \<Rightarrow> Inl (wrap FailedToParseObject f)
         | Inr (v, r') \<Rightarrow> Inr (Object_SetJSONObject key v object, r'))
      else if nextChar = 0x5B then
        (case parseEmbeddedArray r of
           Inl f \<Rightarrow> Inl (wrap FailedToParseArray f)
         | Inr (v, r') \<Rightarrow> Inr (Object_SetJSONArray key v object, r'))
      else if nextChar = 0x22 then
        (case parseString r of
           Inl e \<Rightarrow> Inl (Err (FailedToParseString e))
         | Inr (v, r') \<Rightarrow> Inr (Object_SetString key v object, r'))
      else if isDigitCharacter nextChar then
        (case extractNumber r of
           Inl e \<Rightarrow> Inl (Err (FailedToExtractNumber e))
         | Inr (v, r') \<Rightarrow> Inr (Object_SetNumber key v object, r'))
      else
        (case extractIdentifier r of
           Inl e \<Rightarrow> Inl (Err (FailedToExtractIdentifier e))
         | Inr (v, r') \<Rightarrow>
             if v = gs ''true'' then Inr (Object_SetBool key True object, r')
             else if v = gs ''false'' then Inr (Object_SetBool key False object, r')
             else if v = gs ''null'' then Inr (Object_SetNull key object, r')
             else Inl (Err (UnexpectedIdentifier v))))"
| "parseEmbeddedArray r =
     (case skipWhitespace r of
        Inl e \<Rightarrow> Inl (Err e)
      | Inr r1 \<Rightarrow>
     (case r1 of
        [] \<Rightarrow> Inl (Err FailedToReadRune)
      | char # r2 \<Rightarrow>
          if char = ReplacementChar then Inl (Err InvalidEncoding)
          else if char \<noteq> 0x5B then Inl (Err (UnexpectedCharacter char))
          else parseEmbeddedArray_loop zero_ArrayStruct r2))"
| "parseEmbeddedArray_loop array r =
     (case skipWhitespace r of
        Inl e \<Rightarrow> Inl (Err e)
      | Inr r1 \<Rightarrow>
     (case r1 of
        [] \<Rightarrow> Inl (Err FailedToReadRune)
      | char # r2 \<Rightarrow>
     if char = ReplacementChar then Inl (Err InvalidEncoding) else
     if char = 0x5D then Inr (array, r2) else
     (case UnreadRune char r2 of
        [] \<Rightarrow> Inl (Err FailedToReadRune)
      | nextChar # r3 \<Rightarrow>
     if char = ReplacementChar then Inl (Err InvalidEncoding) else
     (case parseEmbeddedArray_value array nextChar (UnreadRune nextChar r3) of
        Inl f \<Rightarrow> Inl f
      | Inr (array', r4) \<Rightarrow>
     (case skipWhitespace r4 of
        Inl e \<Rightarrow> Inl (Err e)
      | Inr r5 \<Rightarrow>
     (case r5 of
        [] \<Rightarrow> Inl (Err FailedToReadRune)
      | char # r6 \<Rightarrow>
     if char = ReplacementChar then Inl (Err InvalidEncoding) else
     if char = 0x5D then Inr (array', r6) else
     if char \<noteq> 0x2C then Inl (Err (UnexpectedCharacter char)) else
     parseEmbeddedArray_loop array' r6))))))"
| "parseEmbeddedArray_value array nextChar r =
     (if nextChar = 0x7B then
        (case parseEmbeddedObject r of
           Inl f \<Rightarrow> Inl f
         | Inr (v, r') \<Rightarrow>
             (case Array_AddJSONObject v array of
                (Some p, _) \<Rightarrow> Inl (Panic p)
              | (None, array') \<Rightarrow> Inr (array', r')))
      else if nextChar = 0x5B then
        (case parseEmbeddedArray r of
           Inl f \<Rightarrow> Inl f
         | Inr (v, r') \<Rightarrow>
             (case Array_AddJSONArray v array of
                (Some p, _) \<Rightarrow> Inl (Panic p)
              | (None, array') \<Rightarrow> Inr (array', r')))
      else if nextChar = 0x22 then
        (case parseString r of
           Inl e \<Rightarrow> Inl (Err e)
         | Inr (v, r') \<Rightarrow>
             (case Array_AddString v array of
                (Some p, _) \<Rightarrow> Inl (Panic p)
              | (None, array') \<Rightarrow> Inr (array', r')))
      else if isDigitCharacter nextChar then
        (case extractNumber r of
           Inl e \<Rightarrow> Inl (Err e)
         | Inr (v, r') \<Rightarrow>
             (case Array_AddNumber v array of
                (Some p, _) \<Rightarrow> Inl (Panic p)
              | (None, array') \<Rightarrow> Inr (array', r')))
      else
        (case extractIdentifier r of
           Inl e \<Rightarrow> Inl (Err e)
         | Inr (v, r') \<Rightarrow>
             if v = gs ''true'' then
               (case Array_AddBool True array of
                  (Some p, _) \<Rightarrow> Inl (Panic p)
                | (None, array') \<Rightarrow> Inr (array', r'))
             else if v = gs ''false'' then
               (case Array_AddBool False array of
                  (Some p, _) \<Rightarrow> Inl (Panic p)
                | (None, array') \<Rightarrow> Inr (array', r'))
             else if v = gs ''null'' then
               (case Array_AddNull array of
                  (Some p, _) \<Rightarrow> Inl (Panic p)
                | (None, array') \<Rightarrow> Inr (array', r'))
             else Inl (Err (UnexpectedIdentifier v))))"
  by pat_completeness auto

text \<open>Termination: every call leaves less input than it was given.\<close>

abbreviation (input) parse_dom where
  "parse_dom \<equiv> parseEmbeddedObject_parseEmbeddedObject_loop_parseEmbeddedObject_value_parseEmbeddedArray_parseEmbeddedArray_loop_parseEmbeddedArray_value_dom"

lemma parse_lengths:
  "parse_dom (Inl (Inl r)) \<Longrightarrow>
     \<forall>v r'. parseEmbeddedObject r = Inr (v, r') \<longrightarrow> length r' < length r"
  "parse_dom (Inl (Inr (Inl (object, ro)))) \<Longrightarrow>
     \<forall>v r'. parseEmbeddedObject_loop object ro = Inr (v, r') \<longrightarrow> length r' < length ro"
  "parse_dom (Inl (Inr (Inr (key, object', nextChar, rv)))) \<Longrightarrow>
     \<forall>v r'. parseEmbeddedObject_value key object' nextChar rv = Inr (v, r') \<longrightarrow> length r' < length rv"
  "parse_dom (Inr (Inl ra)) \<Longrightarrow>
     \<forall>v r'. parseEmbeddedArray ra = Inr (v, r') \<longrightarrow> length r' < length ra"
  "parse_dom (Inr (Inr (Inl (array, rl)))) \<Longrightarrow>
     \<forall>v r'. parseEmbeddedArray_loop array rl = Inr (v, r') \<longrightarrow> length r' < length rl"
  "parse_dom (Inr (Inr (Inr (array', nextChar', rw)))) \<Longrightarrow>
     \<forall>v r'. parseEmbeddedArray_value array' nextChar' rw = Inr (v, r') \<longrightarrow> length r' < length rw"
proof (induct rule: parseEmbeddedObject_parseEmbeddedObject_loop_parseEmbeddedObject_value_parseEmbeddedArray_parseEmbeddedArray_loop_parseEmbeddedArray_value.pinduct)
  case (1 r)
  show ?case
    apply (subst parseEmbeddedObject.psimps [OF "1.hyps"(1)])
    apply (clarsimp split: sum.splits list.splits if_splits)
    using "1.hyps"(2) skipWhitespace_length
    apply fastforce
    done
next
  case (2 object r)
  have value_shorter: "\<And>x21 x22 x y x22a x21b x22b v r'.
      skipWhitespace r = Inr (x21 # x22) \<Longrightarrow> x21 \<noteq> ReplacementChar \<Longrightarrow> x21 \<noteq> 125 \<Longrightarrow>
      parseString (x21 # x22) = Inr (x, y) \<Longrightarrow> \<not> Has object x \<Longrightarrow>
      skipWhitespace y = Inr (58 # x22a) \<Longrightarrow> skipWhitespace x22a = Inr (x21b # x22b) \<Longrightarrow>
      parseEmbeddedObject_value x object x21b (x21b # x22b) = Inr (v, r') \<Longrightarrow>
      length r' < Suc (length x22b)"
    using "2.hyps"(2) by (fastforce simp: UnreadRune_def ReplacementChar_def)
  have loop_shorter: "\<And>x21 x22 x y x22a x21b x22b xa ya x22c v r'.
      skipWhitespace r = Inr (x21 # x22) \<Longrightarrow> x21 \<noteq> ReplacementChar \<Longrightarrow> x21 \<noteq> 125 \<Longrightarrow>
      parseString (x21 # x22) = Inr (x, y) \<Longrightarrow> \<not> Has object x \<Longrightarrow>
      skipWhitespace y = Inr (58 # x22a) \<Longrightarrow> skipWhitespace x22a = Inr (x21b # x22b) \<Longrightarrow>
      parseEmbeddedObject_value x object x21b (x21b # x22b) = Inr (xa, ya) \<Longrightarrow>
      skipWhitespace ya = Inr (44 # x22c) \<Longrightarrow>
      parseEmbeddedObject_loop xa x22c = Inr (v, r') \<Longrightarrow>
      length r' < length x22c"
    using "2.hyps"(3) by (fastforce simp: UnreadRune_def ReplacementChar_def)
  show ?case
  proof (intro allI impI)
    fix v r' assume res: "parseEmbeddedObject_loop object r = Inr (v, r')"
    then show "length r' < length r"
      apply (subst (asm) parseEmbeddedObject_loop.psimps [OF "2.hyps"(1)])
      apply (simp split: sum.split_asm list.split_asm if_split_asm prod.split_asm add: UnreadRune_def)
      subgoal by (drule skipWhitespace_length) simp
      subgoal by (drule skipWhitespace_length) simp
      subgoal for x2 x21 x22 x2a x1 x2b x2c x21a x22a x2d x21b x22b x2e x1a x2f x2g x21c
        using value_shorter [of x21 x22 x1 x2b x22a x21b x22b v x2f]
          skipWhitespace_length [of r "x21 # x22"] parseString_length [of "x21 # x22" x1 x2b]
          skipWhitespace_length [of x2b "58 # x22a"] skipWhitespace_length [of x22a "x21b # x22b"]
          skipWhitespace_length [of x2f "125 # r'"]
        by simp
      subgoal for x2 x21 x22 x2a x1 x2b x2c x21a x22a x2d x21b x22b x2e x1a x2f x2g x21c x22c
        using value_shorter [of x21 x22 x1 x2b x22a x21b x22b x1a x2f]
          loop_shorter [of x21 x22 x1 x2b x22a x21b x22b x1a x2f x22c v r']
          skipWhitespace_length [of r "x21 # x22"] parseString_length [of "x21 # x22" x1 x2b]
          skipWhitespace_length [of x2b "58 # x22a"] skipWhitespace_length [of x22a "x21b # x22b"]
          skipWhitespace_length [of x2f "44 # x22c"]
        by simp
      done
  qed
next
  case (3 key object nextChar r)
  show ?case
  proof (intro allI impI)
    fix v r' assume "parseEmbeddedObject_value key object nextChar r = Inr (v, r')"
    then show "length r' < length r"
      apply (subst (asm) parseEmbeddedObject_value.psimps [OF "3.hyps"(1)])
      apply (simp split: if_split_asm)
      apply (simp_all split: sum.split_asm prod.split_asm if_split_asm)
      using "3.hyps"(2,3) parseString_length extractNumber_length extractIdentifier_length
      apply fastforce+
      done
  qed
next
  case (4 r)
  show ?case
    apply (subst parseEmbeddedArray.psimps [OF "4.hyps"(1)])
    apply (clarsimp split: sum.splits list.splits if_splits)
    using "4.hyps"(2) skipWhitespace_length
    apply fastforce
    done
next
  case (5 array r)
  have value_shorter: "\<And>x21 x22 v r'.
      skipWhitespace r = Inr (x21 # x22) \<Longrightarrow> x21 \<noteq> ReplacementChar \<Longrightarrow> x21 \<noteq> 93 \<Longrightarrow>
      parseEmbeddedArray_value array x21 (x21 # x22) = Inr (v, r') \<Longrightarrow>
      length r' < Suc (length x22)"
    using "5.hyps"(2) by (fastforce simp: UnreadRune_def)
  have loop_shorter: "\<And>x21 x22 x y x22b v r'.
      skipWhitespace r = Inr (x21 # x22) \<Longrightarrow> x21 \<noteq> ReplacementChar \<Longrightarrow> x21 \<noteq> 93 \<Longrightarrow>
      parseEmbeddedArray_value array x21 (x21 # x22) = Inr (x, y) \<Longrightarrow>
      skipWhitespace y = Inr (44 # x22b) \<Longrightarrow>
      parseEmbeddedArray_loop x x22b = Inr (v, r') \<Longrightarrow>
      length r' < length x22b"
    using "5.hyps"(3) by (fastforce simp: UnreadRune_def ReplacementChar_def)
  show ?case
  proof (intro allI impI)
    fix v r' assume res: "parseEmbeddedArray_loop array r = Inr (v, r')"
    then show "length r' < length r"
      apply (subst (asm) parseEmbeddedArray_loop.psimps [OF "5.hyps"(1)])
      apply (simp split: sum.split_asm list.split_asm if_split_asm prod.split_asm add: UnreadRune_def)
      subgoal by (drule skipWhitespace_length) simp
      subgoal by (drule skipWhitespace_length) simp
      subgoal for x2 x21 x22 x21a x2a x1 x2b x2c x21b
        using value_shorter [of x21a x22 v x2b]
          skipWhitespace_length [of r "x21a # x22"] skipWhitespace_length [of x2b "93 # r'"]
        by simp
      subgoal for x2 x21 x22 x21a x2a x1 x2b x2c x21b x22a
        using value_shorter [of x21a x22 x1 x2b] loop_shorter [of x21a x22 x1 x2b x22a v r']
          skipWhitespace_length [of r "x21a # x22"] skipWhitespace_length [of x2b "44 # x22a"]
        by simp
      done
  qed
next
  case (6 array nextChar r)
  show ?case
  proof (intro allI impI)
    fix v r' assume "parseEmbeddedArray_value array nextChar r = Inr (v, r')"
    then show "length r' < length r"
      apply (subst (asm) parseEmbeddedArray_value.psimps [OF "6.hyps"(1)])
      apply (simp split: if_split_asm)
      apply (simp_all split: sum.split_asm prod.split_asm option.split_asm if_split_asm)
      using "6.hyps"(2,3) parseString_length extractNumber_length extractIdentifier_length
      apply fastforce+
      done
  qed
qed

termination parseEmbeddedObject
proof (relation "measure (\<lambda>x. case x of
          Inl (Inl r) \<Rightarrow> 3 * length r
        | Inl (Inr (Inl (object, r))) \<Rightarrow> 3 * length r + 2
        | Inl (Inr (Inr (key, object, nextChar, r))) \<Rightarrow> 3 * length r + 1
        | Inr (Inl r) \<Rightarrow> 3 * length r
        | Inr (Inr (Inl (array, r))) \<Rightarrow> 3 * length r + 2
        | Inr (Inr (Inr (array, nextChar, r))) \<Rightarrow> 3 * length r + 1)", goal_cases)
  case 1
  show ?case by simp
next
  case (2 r b x21 x22)
  then show ?case by (auto dest: skipWhitespace_length)
next
  case (3 object r b x21 x22 ba x y bb x21a x22a bc x21b x22b)
  then show ?case
    by (auto simp: UnreadRune_def dest!: skipWhitespace_length parseString_length)
next
  case (4 object r b x21 x22 ba x y bb x21a x22a bc x21b x22b bd xa ya be x21c x22c)
  from 4 parse_lengths(3) [of x object x21b "UnreadRune x21b x22b"]
  have "length ya < length (UnreadRune x21b x22b)" by auto
  with 4 show ?case
    by (auto simp: UnreadRune_def dest!: skipWhitespace_length parseString_length)
next
  case (5 key object nextChar r)
  show ?case by simp
next
  case (6 key object nextChar r)
  show ?case by simp
next
  case (7 r b x21 x22)
  then show ?case by (auto dest: skipWhitespace_length)
next
  case (8 array r b x21 x22 x21a x22a)
  then show ?case
    by (auto simp: UnreadRune_def dest!: skipWhitespace_length)
next
  case (9 array r b x21 x22 x21a x22a ba x y bb x21b x22b)
  from 9 parse_lengths(6) [of array x21a "UnreadRune x21a x22a"]
  have "length y < length (UnreadRune x21a x22a)" by auto
  with 9 show ?case
    by (auto simp: UnreadRune_def dest!: skipWhitespace_length)
next
  case (10 array nextChar r)
  show ?case by simp
next
  case (11 array nextChar r)
  show ?case by simp
qed

text \<open>The entry points.\<close>

declare parseEmbeddedObject.simps [simp del] parseEmbeddedObject_loop.simps [simp del]
  parseEmbeddedObject_value.simps [simp del] parseEmbeddedArray.simps [simp del]
  parseEmbeddedArray_loop.simps [simp del] parseEmbeddedArray_value.simps [simp del]

definition ParseObject :: "gostring \<Rightarrow> fault + ObjectStruct" where
  "ParseObject s =
     (case parseEmbeddedObject s of
        Inl f \<Rightarrow> Inl f
      | Inr (parsed, r) \<Rightarrow>
          (case parseEnd r of
             Inl e \<Rightarrow> Inl (Err e)
           | Inr _ \<Rightarrow> Inr parsed))"

definition ParseArray :: "gostring \<Rightarrow> fault + ArrayStruct" where
  "ParseArray s =
     (case parseEmbeddedArray s of
        Inl f \<Rightarrow> Inl f
      | Inr (parsed, r) \<Rightarrow>
          (case parseEnd r of
             Inl e \<Rightarrow> Inl (Err e)
           | Inr _ \<Rightarrow> Inr parsed))"

section \<open>Vocabulary of the claims\<close>

text \<open>A rune list written as text after a backslash, as in \<^verbatim>\<open>\uD834\<close>.\<close>

definition esc :: "string \<Rightarrow> gostring" where
  "esc s = 0x5C # gs s"

text \<open>
  The value of a typed \<^verbatim>\<open>Set\<close> or \<^verbatim>\<open>Add\<close> call, one constructor per kind, so that a
  statement can speak of any such call. \<^verbatim>\<open>SetInt32\<close> and \<^verbatim>\<open>AddInt32\<close> are the number
  calls on \<open>FormatInt\<close> of their argument.
\<close>

datatype typed_value =
    VString gostring
  | VNumber gostring
  | VBool bool
  | VNull
  | VJSONObject ObjectStruct
  | VJSONArray ArrayStruct

fun Array_Set :: "int \<Rightarrow> typed_value \<Rightarrow> ArrayStruct \<Rightarrow> panic option \<times> ArrayStruct" where
  "Array_Set index (VString v) array = Array_SetString index v array"
| "Array_Set index (VNumber v) array = Array_SetNumber index v array"
| "Array_Set index (VBool v) array = Array_SetBool index v array"
| "Array_Set index VNull array = Array_SetNull index array"
| "Array_Set index (VJSONObject v) array = Array_SetJSONObject index v array"
| "Array_Set index (VJSONArray v) array = Array_SetJSONArray index v array"

fun Array_Add :: "typed_value \<Rightarrow> ArrayStruct \<Rightarrow> panic option \<times> ArrayStruct" where
  "Array_Add (VString v) array = Array_AddString v array"
| "Array_Add (VNumber v) array = Array_AddNumber v array"
| "Array_Add (VBool v) array = Array_AddBool v array"
| "Array_Add VNull array = Array_AddNull array"
| "Array_Add (VJSONObject v) array = Array_AddJSONObject v array"
| "Array_Add (VJSONArray v) array = Array_AddJSONArray v array"

fun Array_Get_returns :: "ArrayStruct \<Rightarrow> int \<Rightarrow> typed_value \<Rightarrow> bool" where
  "Array_Get_returns array index (VString v) = (Array_GetString array index = Inr v)"
| "Array_Get_returns array index (VNumber v) = (Array_GetNumber array index = Inr v)"
| "Array_Get_returns array index (VBool v) = (Array_GetBool array index = Inr v)"
| "Array_Get_returns array index VNull = (Array_IsNull array index = Inr True)"
| "Array_Get_returns array index (VJSONObject v) = (Array_GetJSONObject array index = Inr v)"
| "Array_Get_returns array index (VJSONArray v) = (Array_GetJSONArray array index = Inr v)"

definition allocated :: "ArrayStruct \<Rightarrow> bool" where
  "allocated array =
     (arr_strings array \<noteq> None \<and> arr_numbers array \<noteq> None \<and> arr_bools array \<noteq> None \<and>
      arr_nulls array \<noteq> None \<and> arr_objects array \<noteq> None \<and> arr_arrays array \<noteq> None)"

inductive array_built :: "ArrayStruct \<Rightarrow> bool" where
  zero: "array_built zero_ArrayStruct"
| new: "array_built NewArray"
| add: "array_built array \<Longrightarrow> Array_Add v array = (p, array') \<Longrightarrow> array_built array'"
| set: "array_built array \<Longrightarrow> Array_Set index v array = (p, array') \<Longrightarrow> array_built array'"

text \<open>Objects: a typed call at a key, and a sequence of calls in order.\<close>

fun Object_Set :: "gostring \<Rightarrow> typed_value \<Rightarrow> ObjectStruct \<Rightarrow> ObjectStruct" where
  "Object_Set key (VString v) object = Object_SetString key v object"
| "Object_Set key (VNumber v) object = Object_SetNumber key v object"
| "Object_Set key (VBool v) object = Object_SetBool key v object"
| "Object_Set key VNull object = Object_SetNull key object"
| "Object_Set key (VJSONObject v) object = Object_SetJSONObject key v object"
| "Object_Set key (VJSONArray v) object = Object_SetJSONArray key v object"

fun Object_Set_all :: "(gostring \<times> typed_value) list \<Rightarrow> ObjectStruct \<Rightarrow> ObjectStruct" where
  "Object_Set_all [] object = object"
| "Object_Set_all ((key, v) # calls) object = Object_Set_all calls (Object_Set key v object)"

function first_occurrences :: "'a list \<Rightarrow> 'a list" where
  "first_occurrences [] = []"
| "first_occurrences (x # xs) = x # first_occurrences (removeAll x xs)"
  by pat_completeness auto
termination
  by (relation "measure length") (auto simp: less_Suc_eq_le length_removeAll_less_eq)

definition keys_match_members :: "ObjectStruct \<Rightarrow> bool" where
  "keys_match_members object = (distinct (obj_keys object) \<and> (\<forall>key. key \<in> set (obj_keys object) \<longleftrightarrow> Has object key))"

text \<open>
  Texts of members, for statements about \<^verbatim>\<open>ParseObject\<close> on any object literal.
  \<open>name_text nameText key\<close>: the text is a string literal that \<^verbatim>\<open>parseString\<close> decodes to
  \<open>key\<close>, whatever follows it. \<open>value_text valueText v\<close>: the text does not start with
  white space and, followed by a comma, is parsed as the value \<open>v\<close> and stored by the
  \<^verbatim>\<open>Set\<close> call of its kind. \<open>members_text\<close> is the text of a list of members, each
  written \<^verbatim>\<open>name:value,\<close>.
\<close>

definition name_text :: "gostring \<Rightarrow> gostring \<Rightarrow> bool" where
  "name_text nameText key = (\<forall>rest. parseString (nameText @ rest) = Inr (key, rest))"

definition value_text :: "gostring \<Rightarrow> typed_value \<Rightarrow> bool" where
  "value_text valueText v =
     (valueText \<noteq> [] \<and> hd valueText \<notin> {0x09, 0x0A, 0x20, 0x0D, ReplacementChar} \<and>
      (\<forall>key object rest.
         parseEmbeddedObject_value key object (hd valueText) (valueText @ 0x2C # rest)
           = Inr (Object_Set key v object, 0x2C # rest)))"

fun members_text :: "(gostring \<times> gostring \<times> gostring \<times> typed_value) list \<Rightarrow> gostring" where
  "members_text [] = []"
| "members_text ((nameText, key, valueText, v) # members) =
     nameText @ 0x3A # valueText @ 0x2C # members_text members"


text \<open>
  Following the spec's words: the number grammar
  \<^verbatim>\<open>-?(0|[1-9][0-9]*)(\.[0-9]+)?([eE][+-]?[0-9]+)?\<close>, matched against a whole text.
\<close>

fun grammar_exponent :: "gostring \<Rightarrow> bool" where
  "grammar_exponent [] = True"
| "grammar_exponent (c # s) =
     ((c = 0x65 \<or> c = 0x45) \<and>
      (case s of
         [] \<Rightarrow> False
       | d # t \<Rightarrow>
           if d = 0x2B \<or> d = 0x2D then t \<noteq> [] \<and> list_all isDigitCharacter t
           else list_all isDigitCharacter s))"

fun grammar_fraction :: "gostring \<Rightarrow> bool" where
  "grammar_fraction [] = True"
| "grammar_fraction (c # s) =
     (if c = 0x2E
      then takeWhile isDigitCharacter s \<noteq> [] \<and> grammar_exponent (dropWhile isDigitCharacter s)
      else grammar_exponent (c # s))"

definition grammar_integer :: "gostring \<Rightarrow> bool" where
  "grammar_integer s =
     (case s of
        [] \<Rightarrow> False
      | c # t \<Rightarrow>
          if c = 0x30 then grammar_fraction t
          else 0x31 \<le> c \<and> c \<le> 0x39 \<and> grammar_fraction (dropWhile isDigitCharacter t))"

definition matches_number_grammar :: "gostring \<Rightarrow> bool" where
  "matches_number_grammar s =
     (case s of
        [] \<Rightarrow> False
      | c # t \<Rightarrow> if c = 0x2D then grammar_integer t else grammar_integer s)"

section \<open>Arrays: bounds and allocation\<close>

lemmas Array_Set_defs = Array_SetString_def Array_SetNumber_def Array_SetBool_def Array_SetNull_def
  Array_SetJSONObject_def Array_SetJSONArray_def
lemmas Array_Add_defs = Array_AddString_def Array_AddNumber_def Array_AddBool_def Array_AddNull_def
  Array_AddJSONObject_def Array_AddJSONArray_def
lemmas Array_Get_defs = Array_GetString_def Array_GetNumber_def Array_GetBool_def Array_IsNull_def
  Array_GetJSONObject_def Array_GetJSONArray_def

lemma Array_Set_out_of_bounds:
  "index \<ge> arr_length array \<Longrightarrow> Array_Set index v array = (Some OutOfBounds, array)"
  by (cases v) (simp_all add: Array_Set_defs)

lemma Array_Set_allocated:
  assumes "allocated array" "index < arr_length array"
  shows "\<exists>array'. Array_Set index v array = (None, array') \<and> arr_length array' = arr_length array
           \<and> allocated array' \<and> Array_Get_returns array' index v"
  using assms
  by (cases array; cases v)
     (auto simp: allocated_def Array_Set_defs Array_Get_defs go_assign_def go_delete_def go_lookup_def)

lemma Array_Set_zero:
  "Array_Set index v zero_ArrayStruct = (p, array') \<Longrightarrow> array' = zero_ArrayStruct"
  by (cases v)
     (auto simp: zero_ArrayStruct_def Array_Set_defs go_assign_def go_delete_def split: if_splits)

lemma Array_Add_zero:
  "Array_Add v zero_ArrayStruct = (p, array') \<Longrightarrow> array' = zero_ArrayStruct"
  by (cases v) (auto simp: zero_ArrayStruct_def Array_Add_defs go_assign_def)

lemma Array_Add_allocated:
  assumes "allocated array"
  shows "\<exists>array'. Array_Add v array = (None, array') \<and> arr_length array' = arr_length array + 1
           \<and> allocated array' \<and> Array_Get_returns array' (arr_length array) v"
  using assms
  by (cases array; cases v)
     (auto simp: allocated_def Array_Add_defs Array_Get_defs go_assign_def go_lookup_def)

lemma Array_Set_keeps_allocated:
  "allocated array \<Longrightarrow> Array_Set index v array = (p, array') \<Longrightarrow> allocated array'"
  by (cases array; cases v)
     (auto simp: allocated_def Array_Set_defs go_assign_def go_delete_def split: if_splits)

lemma array_built_cases: "array_built array \<Longrightarrow> allocated array \<or> array = zero_ArrayStruct"
proof (induction rule: array_built.induct)
  case zero
  show ?case by simp
next
  case new
  show ?case by (simp add: allocated_def NewArray_def)
next
  case (add array v p array')
  then show ?case using Array_Add_allocated [of array v] Array_Add_zero by auto
next
  case (set array index v p array')
  then show ?case using Array_Set_keeps_allocated Array_Set_zero by blast
qed

section \<open>Objects: keys\<close>

lemmas Object_Set_defs = Object_SetString_def Object_SetNumber_def Object_SetBool_def
  Object_SetNull_def Object_SetJSONObject_def Object_SetJSONArray_def

lemma go_lookup_delete [simp]:
  "go_lookup (go_delete m k) k' = (if k' = k then None else go_lookup m k')"
  by (simp add: go_lookup_def go_delete_def split: option.splits)

lemma go_lookup_store [simp]:
  "go_lookup (Some ((go_make_if_nil m)(k \<mapsto> v))) k' = (if k' = k then Some v else go_lookup m k')"
  by (simp add: go_lookup_def go_make_if_nil_def split: option.splits)

lemma go_lookup_nil [simp]: "go_lookup None k = None"
  by (simp add: go_lookup_def)

lemma Has_iff:
  "Has object key \<longleftrightarrow>
     go_lookup (obj_strings object) key \<noteq> None \<or> go_lookup (obj_numbers object) key \<noteq> None \<or>
     go_lookup (obj_bools object) key \<noteq> None \<or> go_lookup (obj_nulls object) key \<noteq> None \<or>
     go_lookup (obj_objects object) key \<noteq> None \<or> go_lookup (obj_arrays object) key \<noteq> None"
  by (simp add: Has_def)

lemma obj_keys_addKey:
  "obj_keys (addKey key object) = (if Has object key then obj_keys object else obj_keys object @ [key])"
  by (cases object) (simp add: Has_iff)

lemma Has_addKey: "key' \<noteq> key \<Longrightarrow> Has (addKey key object) key' \<longleftrightarrow> Has object key'"
  by (cases object) (simp add: Has_iff)

lemma obj_keys_Object_Set:
  "obj_keys (Object_Set key v object) = (if Has object key then obj_keys object else obj_keys object @ [key])"
  using obj_keys_addKey [of key object]
  by (cases v; cases "addKey key object") (simp_all add: Object_Set_defs)

lemma Has_Object_Set:
  "Has (Object_Set key v object) key' \<longleftrightarrow> key' = key \<or> Has object key'"
proof (cases "key' = key")
  case True
  then show ?thesis
    by (cases v; cases "addKey key object") (simp_all add: Object_Set_defs Has_iff)
next
  case False
  with Has_addKey [of key' key object] show ?thesis
    by (cases v; cases "addKey key object") (simp_all add: Object_Set_defs Has_iff)
qed

lemma keys_match_members_Object_Set:
  "keys_match_members object \<Longrightarrow> keys_match_members (Object_Set key v object)"
  unfolding keys_match_members_def
  by (auto simp: obj_keys_Object_Set Has_Object_Set)

lemma keys_match_members_zero: "keys_match_members zero_ObjectStruct"
  by (simp add: keys_match_members_def zero_ObjectStruct_def Has_def go_lookup_def)

lemma Object_Set_all_keys:
  "keys_match_members object \<Longrightarrow>
   keys_match_members (Object_Set_all calls object) \<and>
   obj_keys (Object_Set_all calls object) =
     obj_keys object @ first_occurrences (filter (\<lambda>key. key \<notin> set (obj_keys object)) (map fst calls))"
proof (induction calls arbitrary: object)
  case Nil
  then show ?case by simp
next
  case (Cons call calls)
  obtain key v where call: "call = (key, v)" by (cases call)
  let ?o = "Object_Set key v object"
  have inv: "keys_match_members ?o" using Cons.prems by (rule keys_match_members_Object_Set)
  note IH = Cons.IH [OF inv]
  show ?case
  proof (cases "Has object key")
    case True
    then have "key \<in> set (obj_keys object)" using Cons.prems by (simp add: keys_match_members_def)
    with True IH call show ?thesis by (simp add: obj_keys_Object_Set)
  next
    case False
    then have notin: "key \<notin> set (obj_keys object)" using Cons.prems by (simp add: keys_match_members_def)
    have "removeAll key (filter (\<lambda>key. key \<notin> set (obj_keys object)) (map fst calls))
        = filter (\<lambda>k. k \<notin> set (obj_keys object @ [key])) (map fst calls)"
      by (induction calls) auto
    with False notin IH call show ?thesis by (simp add: obj_keys_Object_Set)
  qed
qed

section \<open>Objects: serialization from the zero builder\<close>

text \<open>With a behavior, \<open>encodeString_interface\<close> is \<^verbatim>\<open>encodeString\<close>.\<close>

lemma encodeString_loop_interface_Some:
  "encodeString_loop_interface (Some p) b s = Inr (encodeString_loop p b s)"
  by (induction s arbitrary: b) (auto split: option.splits)

lemma encodeString_interface_Some:
  "encodeString_interface s (Some p) = Inr (encodeString s p)"
  by (simp add: encodeString_interface_def encodeString_def encodeString_loop_interface_Some)









section \<open>Strings: a pending surrogate\<close>

lemma hex_D834: "parseString_hex 0 0 (gs ''D834'' @ r) = Inr (0xD834, r)"
  by (simp add: parseString_hex.simps gs_def)

lemma pending_D834: "parseString_loop 0 b (esc ''uD834'' @ r) = parseString_loop 0xD834 b r"
  using hex_D834 [of r]
  by (subst parseString_loop.simps) (simp add: esc_def gs_def utf16_IsSurrogate_def)

lemma pending_quote:
  "prevHex > 0 \<Longrightarrow> parseString_loop prevHex b (0x22 # r) = Inl (UnexpectedCharacter 0x22)"
  by (subst parseString_loop.simps) simp

lemma pending_raw:
  "prevHex > 0 \<Longrightarrow> c \<noteq> 0x22 \<Longrightarrow> c \<noteq> 0x5C \<Longrightarrow> parseString_loop prevHex b (c # r) = Inl ExpectedHexEncoding"
  by (subst parseString_loop.simps) simp

lemma pending_end:
  "parseString_loop prevHex b [] = Inl FailedToReadRune"
  by (subst parseString_loop.simps) simp

lemma pending_escape:
  "prevHex > 0 \<Longrightarrow> c \<noteq> 0x75 \<Longrightarrow> parseString_loop prevHex b (0x5C # c # r) = Inl ExpectedHexEncoding"
  by (subst parseString_loop.simps) simp

lemma pending_hex:
  "prevHex > 0 \<Longrightarrow> parseString_hex 0 0 r = Inr (d, r') \<Longrightarrow> \<not> (0xDC00 \<le> d \<and> d < 0xE000) \<Longrightarrow>
   parseString_loop prevHex b (0x5C # 0x75 # r) = Inl InvalidCharacterEncoding"
  by (subst parseString_loop.simps) (auto simp: utf16_DecodeRune_def)

lemma pending_bad_hex:
  "parseString_hex 0 0 r = Inl e \<Longrightarrow>
   parseString_loop prevHex b (0x5C # 0x75 # r) = Inl e"
  by (subst parseString_loop.simps) simp


section \<open>The parser: a repeated member name\<close>

text \<open>
  The check of \<^verbatim>\<open>parseEmbeddedObject\<close> against the names already parsed, through the
  turns of its loop: when the members before a name have values that the parser
  accepts, and one of them has that name, \<^verbatim>\<open>ParseObject\<close> returns "duplicate member
  name", whatever follows the name.
\<close>

lemma name_text_quote:
  assumes "name_text nameText key"
  obtains t where "nameText = 0x22 # t"
proof -
  from assms have "parseString nameText = Inr (key, [])"
    using name_text_def [of nameText key] by (metis append_Nil2)
  then show ?thesis
    using that by (cases nameText) (auto simp: parseString_def split: if_split_asm)
qed

lemma skipWhitespace_quote: "skipWhitespace (0x22 # r) = Inr (0x22 # r)"
  by (simp add: ReplacementChar_def UnreadRune_def)

lemma loop_duplicate:
  assumes "name_text nameText key" "Has object key"
  shows "parseEmbeddedObject_loop object (nameText @ rest) = Inl (Err (DuplicateMemberName key))"
proof -
  from assms(1) obtain t where t: "nameText = 0x22 # t" by (rule name_text_quote)
  from assms(1) have p: "parseString (0x22 # t @ rest) = Inr (key, rest)"
    using name_text_def [of nameText key] by (simp add: t)
  show ?thesis
    by (subst parseEmbeddedObject_loop.simps)
       (simp add: t skipWhitespace_quote UnreadRune_def p assms(2) ReplacementChar_def)
qed

lemma loop_member:
  assumes "name_text nameText key" "\<not> Has object key" "value_text valueText v"
  shows "parseEmbeddedObject_loop object (nameText @ 0x3A # valueText @ 0x2C # rest)
           = parseEmbeddedObject_loop (Object_Set key v object) rest"
proof -
  from assms(1) obtain t where t: "nameText = 0x22 # t" by (rule name_text_quote)
  from assms(3) obtain c u where u: "valueText = c # u"
    and c: "c \<noteq> 0x09" "c \<noteq> 0x0A" "c \<noteq> 0x20" "c \<noteq> 0x0D" "c \<noteq> ReplacementChar"
    and v: "parseEmbeddedObject_value key object c (c # u @ 0x2C # rest)
              = Inr (Object_Set key v object, 0x2C # rest)"
    by (cases valueText) (auto simp: value_text_def)
  from assms(1) have p: "parseString (0x22 # t @ 0x3A # c # u @ 0x2C # rest)
      = Inr (key, 0x3A # c # u @ 0x2C # rest)"
    using name_text_def [of nameText key] by (simp add: t)
  have colon: "skipWhitespace (0x3A # c # u @ 0x2C # rest) = Inr (0x3A # c # u @ 0x2C # rest)"
    by (simp add: ReplacementChar_def UnreadRune_def)
  have first: "skipWhitespace (c # u @ 0x2C # rest) = Inr (c # u @ 0x2C # rest)"
    using c by (simp add: UnreadRune_def)
  have comma: "skipWhitespace (0x2C # rest) = Inr (0x2C # rest)"
    by (simp add: ReplacementChar_def UnreadRune_def)
  have not_replacement: "(0x22::rune) \<noteq> ReplacementChar" "(0x3A::rune) \<noteq> ReplacementChar"
    "(0x2C::rune) \<noteq> ReplacementChar"
    by (simp_all add: ReplacementChar_def)
  show ?thesis
    apply (subst parseEmbeddedObject_loop.simps)
    apply (simp only: t u append_Cons skipWhitespace_quote)
    apply (simp add: UnreadRune_def p assms(2) colon first comma not_replacement v del: skipWhitespace.simps)
    done
qed

lemma loop_repeated:
  assumes "\<forall>(nameText, key, valueText, v) \<in> set members. name_text nameText key \<and> value_text valueText v"
    and "name_text nameText key"
    and "Has object key \<or> key \<in> set (map (fst \<circ> snd) members)"
  shows "\<exists>k. parseEmbeddedObject_loop object (members_text members @ nameText @ rest)
           = Inl (Err (DuplicateMemberName k))"
  using assms
proof (induction members arbitrary: object)
  case Nil
  then show ?case using loop_duplicate [of nameText key object rest] by simp
next
  case (Cons m members)
  obtain n1 k1 t1 v1 where m: "m = (n1, k1, t1, v1)" by (cases m)
  from Cons.prems(1) have ok: "name_text n1 k1" "value_text t1 v1"
    and rest_ok: "\<forall>(nameText, key, valueText, v) \<in> set members. name_text nameText key \<and> value_text valueText v"
    by (auto simp: m)
  show ?case
  proof (cases "Has object k1")
    case True
    from loop_duplicate [OF ok(1) True] show ?thesis by (auto simp: m)
  next
    case False
    have "Has (Object_Set k1 v1 object) key \<or> key \<in> set (map (fst \<circ> snd) members)"
      using Cons.prems(3) by (auto simp: m Has_Object_Set)
    from Cons.IH [OF rest_ok Cons.prems(2) this]
    show ?thesis by (simp add: m loop_member [OF ok(1) False ok(2)])
  qed
qed

lemma ParseObject_repeated_member_name:
  assumes "\<forall>(nameText, key, valueText, v) \<in> set members. name_text nameText key \<and> value_text valueText v"
    and "name_text nameText key"
    and "key \<in> set (map (fst \<circ> snd) members)"
  shows "\<exists>k. ParseObject (0x7B # members_text members @ nameText @ rest)
           = Inl (Err (DuplicateMemberName k))"
proof -
  from loop_repeated [OF assms(1,2), of zero_ObjectStruct rest] assms(3)
  obtain k where "parseEmbeddedObject_loop zero_ObjectStruct (members_text members @ nameText @ rest)
           = Inl (Err (DuplicateMemberName k))" by auto
  then have "ParseObject (0x7B # members_text members @ nameText @ rest)
           = Inl (Err (DuplicateMemberName k))"
    by (simp add: ParseObject_def parseEmbeddedObject.simps UnreadRune_def ReplacementChar_def)
  then show ?thesis ..
qed

text \<open>The name texts \<^verbatim>\<open>"a"\<close>, \<^verbatim>\<open>"\u0061"\<close> and \<^verbatim>\<open>"b"\<close>, the value texts \<^verbatim>\<open>1\<close> and \<^verbatim>\<open>true\<close>.\<close>

lemma name_text_a: "name_text (gs ''\"a\"'') (gs ''a'')"
  by (simp add: name_text_def gs_def parseString_def parseString_loop.simps ReplacementChar_def WriteRune_def)

lemma name_text_u0061: "name_text (gs ''\"'' @ esc ''u0061'' @ gs ''\"'') (gs ''a'')"
  by (simp add: name_text_def gs_def esc_def parseString_def parseString_loop.simps parseString_hex.simps
        ReplacementChar_def WriteRune_def utf16_IsSurrogate_def)

lemma value_text_1: "value_text (gs ''1'') (VNumber (gs ''1''))"
  by (simp add: value_text_def gs_def parseEmbeddedObject_value.simps isDigitCharacter_def
        extractNumber_def UnreadRune_def ReplacementChar_def string_of_runes_def WriteRune_def)

lemma value_text_true: "value_text (gs ''true'') (VBool True)"
  by (simp add: value_text_def gs_def parseEmbeddedObject_value.simps isDigitCharacter_def
        extractIdentifier_def isIdentifierCharacter_def UnreadRune_def ReplacementChar_def string_of_runes_def WriteRune_def)

lemma name_text_b: "name_text (gs ''\"b\"'') (gs ''b'')"
  by (simp add: name_text_def gs_def parseString_def parseString_loop.simps ReplacementChar_def WriteRune_def)

lemma ParseObject_repeated_member_name_example:
  "\<exists>k. ParseObject (gs ''{\"a\":1,\"b\":true,\"'' @ esc ''u0061'' @ gs ''\":2}'')
         = Inl (Err (DuplicateMemberName k))"
proof -
  have members: "\<forall>(nameText, key, valueText, v)
      \<in> set [(gs ''\"a\"'', gs ''a'', gs ''1'', VNumber (gs ''1'')),
              (gs ''\"b\"'', gs ''b'', gs ''true'', VBool True)].
      name_text nameText key \<and> value_text valueText v"
    by (simp add: name_text_a name_text_b value_text_1 value_text_true)
  have key: "gs ''a'' \<in> set (map (fst \<circ> snd)
      [(gs ''\"a\"'', gs ''a'', gs ''1'', VNumber (gs ''1'')),
       (gs ''\"b\"'', gs ''b'', gs ''true'', VBool True)])"
    by simp
  have literal: "0x7B # members_text [(gs ''\"a\"'', gs ''a'', gs ''1'', VNumber (gs ''1'')),
                                   (gs ''\"b\"'', gs ''b'', gs ''true'', VBool True)]
                @ (gs ''\"'' @ esc ''u0061'' @ gs ''\"'') @ gs '':2}''
              = gs ''{\"a\":1,\"b\":true,\"'' @ esc ''u0061'' @ gs ''\":2}''"
    by (simp add: gs_def esc_def)
  from ParseObject_repeated_member_name [OF members name_text_u0061 key, of "gs '':2}''"]
  show ?thesis unfolding literal .
qed


section \<open>The claims\<close>

subsection \<open>C1: round trip\<close>

text \<open>
  Claim C1 says that a model built by the typed \<^verbatim>\<open>Add\<close> and \<^verbatim>\<open>Set\<close> calls, serialized by
  \<^verbatim>\<open>String\<close> under the minimal escaping behavior and parsed again, comes back structurally
  equal. The code does not do this. The array made by \<^verbatim>\<open>NewArray\<close> and \<^verbatim>\<open>AddInt32(-1)\<close>
  serializes to \<^verbatim>\<open>[-1]\<close>, and \<^verbatim>\<open>ParseArray\<close> of that text returns the error "unexpected
  character -": the loops send a value to \<^verbatim>\<open>extractNumber\<close> only when it starts with a
  digit, although \<^verbatim>\<open>extractNumber\<close> itself accepts a leading minus sign. For the object
  with the one member \<^verbatim>\<open>a\<close> set by \<^verbatim>\<open>SetInt32\<close> to -1, \<^verbatim>\<open>String\<close> ends in the panic of
  a nil pointer dereference, and the text \<^verbatim>\<open>{"\u0061":-1}\<close> of that member fails to
  parse in the same way as the array. An array holding the one-rune string of a line
  feed serializes with the line feed written raw, which \<^verbatim>\<open>parseString\<close> rejects.
\<close>

theorem C1_round_trip_fails:
  "Array_AddInt32 (- 1) NewArray = (None, snd (Array_AddInt32 (- 1) NewArray)) \<and>
   Array_String MinimalStringCharacterEscapingBehavior (snd (Array_AddInt32 (- 1) NewArray))
     = Inr (gs ''[-1]'') \<and>
   (case ParseArray (gs ''[-1]'') of Inl f \<Rightarrow> f = Err (UnexpectedCharacter 0x2D) | Inr _ \<Rightarrow> False) \<and>
   Object_String MinimalStringCharacterEscapingBehavior
     (Object_SetInt32 (gs ''a'') (- 1) zero_ObjectStruct) = Inl NilPointerDereference \<and>
   (case ParseObject (gs ''{\"'' @ esc ''u0061'' @ gs ''\":-1}'') of
      Inl f \<Rightarrow> f = Err (FailedToExtractIdentifier (UnexpectedCharacter 0x2D)) | Inr _ \<Rightarrow> False) \<and>
   Array_String MinimalStringCharacterEscapingBehavior (snd (Array_AddString [0x0A] NewArray))
     = Inr (gs ''[\"'' @ [0x0A] @ gs ''\"]'') \<and>
   (case ParseArray (gs ''[\"'' @ [0x0A] @ gs ''\"]'') of
      Inl f \<Rightarrow> f = Err InvalidCharacter | Inr _ \<Rightarrow> False)"
proof -
  have minus_one: "FormatInt (sint (- 1 :: 32 word)) = gs ''-1''"
    by (simp add: FormatInt_def FormatUint.simps gs_def)
  have a1: "Array_AddInt32 (- 1) NewArray = (None, snd (Array_AddInt32 (- 1) NewArray))"
    by (simp add: Array_AddInt32_def Array_AddNumber_def NewArray_def go_assign_def)
  have a2: "Array_String MinimalStringCharacterEscapingBehavior (snd (Array_AddInt32 (- 1) NewArray))
     = Inr (gs ''[-1]'')"
    unfolding Array_AddInt32_def minus_one by code_simp
  have a3: "(case ParseArray (gs ''[-1]'') of Inl f \<Rightarrow> f = Err (UnexpectedCharacter 0x2D) | Inr _ \<Rightarrow> False)"
    by code_simp
  have o1: "Object_String MinimalStringCharacterEscapingBehavior
     (Object_SetInt32 (gs ''a'') (- 1) zero_ObjectStruct) = Inl NilPointerDereference"
    unfolding Object_SetInt32_def minus_one by code_simp
  have o2: "(case ParseObject (gs ''{\"'' @ esc ''u0061'' @ gs ''\":-1}'') of
      Inl f \<Rightarrow> f = Err (FailedToExtractIdentifier (UnexpectedCharacter 0x2D)) | Inr _ \<Rightarrow> False)"
    by code_simp
  have s1: "Array_String MinimalStringCharacterEscapingBehavior (snd (Array_AddString [0x0A] NewArray))
     = Inr (gs ''[\"'' @ [0x0A] @ gs ''\"]'')"
    by code_simp
  have s2: "(case ParseArray (gs ''[\"'' @ [0x0A] @ gs ''\"]'') of
      Inl f \<Rightarrow> f = Err InvalidCharacter | Inr _ \<Rightarrow> False)"
    by code_simp
  from a1 a2 a3 o1 o2 s1 s2 show ?thesis by blast
qed

subsection \<open>C2: number fidelity\<close>

text \<open>
  Claim C2 says that for every text \<^verbatim>\<open>{"x":N}\<close> with \<^verbatim>\<open>N\<close> a JSON number literal,
  \<^verbatim>\<open>ParseObject\<close> and then \<^verbatim>\<open>GetNumber("x")\<close> return the text of \<^verbatim>\<open>N\<close> unchanged. For
  \<^verbatim>\<open>{"x":1.50}\<close> the code returns \<^verbatim>\<open>1.50\<close>. For the literal \<^verbatim>\<open>-1\<close> it does not:
  \<^verbatim>\<open>ParseObject\<close> of \<^verbatim>\<open>{"x":-1}\<close> returns the error "failed to extract identifier:
  unexpected character -", because a value that starts with a minus sign is taken for
  an identifier.
\<close>

theorem C2_number_fidelity_negative:
  "(case ParseObject (gs ''{\"x\":1.50}'') of
      Inr object \<Rightarrow> Object_GetNumber object (gs ''x'') = Inr (gs ''1.50'') | Inl _ \<Rightarrow> False) \<and>
   matches_number_grammar (gs ''-1'') \<and>
   (case ParseObject (gs ''{\"x\":-1}'') of
      Inl f \<Rightarrow> f = Err (FailedToExtractIdentifier (UnexpectedCharacter 0x2D)) | Inr _ \<Rightarrow> False)"
  by code_simp

subsection \<open>C5: the number grammar\<close>

text \<open>
  Claim C5 says that every number text the parser stores matches the grammar
  \<^verbatim>\<open>-?(0|[1-9][0-9]*)(\.[0-9]+)?([eE][+-]?[0-9]+)?\<close> and that a token outside the grammar,
  such as a decimal point with no digit after it, makes the parse fail. The code accepts
  a decimal point with no digit: \<^verbatim>\<open>ParseObject\<close> of \<^verbatim>\<open>{"x":1.}\<close> succeeds and
  \<^verbatim>\<open>GetNumber("x")\<close> returns \<^verbatim>\<open>1.\<close>, which the grammar does not match. The loop over the
  digits of the fraction does not ask for a first digit, while the exponent does.
\<close>

theorem C5_fraction_without_digit:
  "(case ParseObject (gs ''{\"x\":1.}'') of
      Inr object \<Rightarrow> Object_GetNumber object (gs ''x'') = Inr (gs ''1.'') | Inl _ \<Rightarrow> False) \<and>
   \<not> matches_number_grammar (gs ''1.'') \<and>
   (case ParseObject (gs ''{\"x\":1e}'') of
      Inl f \<Rightarrow> f = Err (FailedToExtractNumber (UnexpectedCharacter 0x7D)) | Inr _ \<Rightarrow> False) \<and>
   (case ParseObject (gs ''{\"x\":01}'') of
      Inl f \<Rightarrow> f = Err (UnexpectedCharacter 0x31) | Inr _ \<Rightarrow> False)"
  by code_simp

subsection \<open>C7: escaping behavior\<close>

text \<open>
  Claim C7 says that the string of a double quote and a line feed is encoded with
  \<^verbatim>\<open>\u0022\<close> and \<^verbatim>\<open>\u000a\<close> when both predicates of the behavior return false, and with
  the shorthand escapes \<^verbatim>\<open>\"\<close> and \<^verbatim>\<open>\n\<close> under the minimal behavior. The first half
  holds. Under the minimal behavior the code writes \<^verbatim>\<open>\"\<close> and then the line feed itself,
  unescaped: \<^verbatim>\<open>encodeString\<close> asks \<^verbatim>\<open>UseCharacter\<close> about the runes from U+0000 to U+001F,
  the ones that JSON requires to be escaped, and writes them as they are when it
  answers true. The same test sends every rune from U+0020 on to the escapes, so that
  the letter \<^verbatim>\<open>a\<close> is written \<^verbatim>\<open>\u0061\<close>. \<^verbatim>\<open>parseString\<close> rejects the raw line feed.
\<close>

theorem C7_minimal_behavior_raw_line_feed:
  "encodeString [0x22, 0x0A] \<lparr>UseCharacter = (\<lambda>_. False), UseShorthandEscapeSequence = (\<lambda>_. False)\<rparr>
     = gs ''\"'' @ esc ''u0022'' @ esc ''u000a'' @ gs ''\"'' \<and>
   encodeString [0x22, 0x0A] MinimalStringCharacterEscapingBehavior
     = gs ''\"'' @ esc ''\"'' @ [0x0A] @ gs ''\"'' \<and>
   parseString (gs ''\"'' @ esc ''\"'' @ [0x0A] @ gs ''\"'') = Inl InvalidCharacter \<and>
   encodeString (gs ''a'') MinimalStringCharacterEscapingBehavior = gs ''\"'' @ esc ''u0061'' @ gs ''\"''"
  by code_simp

subsection \<open>C9: GetInt32\<close>

text \<open>
  Claim C9 says that \<^verbatim>\<open>GetInt32\<close> of an object returns the integer exactly when the
  stored number text is the decimal form of a 32-bit signed value, negative values
  included, and that a text that is no such integer gives an error other than the one
  for a missing member. The object's \<^verbatim>\<open>GetInt32\<close> parses with \<^verbatim>\<open>strconv.ParseUint\<close>: after
  \<^verbatim>\<open>SetInt32("k", -5)\<close> it returns an error, for the text \<^verbatim>\<open>3000000000\<close> it returns
  -1294967296, and each of its errors is "no matching member". The array's \<^verbatim>\<open>GetInt32\<close>
  parses with \<^verbatim>\<open>strconv.ParseInt\<close> and returns -5, and an error of its own for a text out
  of range.
\<close>

theorem C9_object_GetInt32_unsigned:
  "Object_GetInt32 (Object_SetInt32 (gs ''k'') (- 5) zero_ObjectStruct) (gs ''k'') = Inl NoMatchingMember \<and>
   Object_GetInt32 (Object_SetNumber (gs ''k'') (gs ''3000000000'') zero_ObjectStruct) (gs ''k'')
     = Inr (- 1294967296) \<and>
   Object_GetInt32 (Object_SetNumber (gs ''k'') (gs ''1.5'') zero_ObjectStruct) (gs ''k'') = Inl NoMatchingMember \<and>
   Object_GetInt32 zero_ObjectStruct (gs ''k'') = Inl NoMatchingMember \<and>
   Array_GetInt32 (snd (Array_AddInt32 (- 5) NewArray)) 0 = Inr (- 5) \<and>
   Array_GetInt32 (snd (Array_AddNumber (gs ''3000000000'') NewArray)) 0 = Inl (FailedToParseInt32 ErrRange) \<and>
   Array_GetInt32 NewArray 0 = Inl (FailedToGetNumber NoMatchingMember)"
proof -
  have minus_five: "FormatInt (sint (- 5 :: 32 word)) = gs ''-5''"
    by (simp add: FormatInt_def FormatUint.simps gs_def)
  show ?thesis
    unfolding Object_SetInt32_def Array_AddInt32_def minus_five
    by (simp add: Object_GetInt32_def Object_SetNumber_def zero_ObjectStruct_def go_make_if_nil_def
          go_lookup_def ParseUint_def ParseInt_def gs_def Array_GetInt32_def Array_GetNumber_def
          Array_AddNumber_def NewArray_def go_assign_def)
qed

subsection \<open>C3: order of the members\<close>


subsection \<open>C4: duplicate member names\<close>

text \<open>
  Claim C4 says that for every text in which an object literal repeats a member name,
  compared after the escapes of the name are resolved, \<^verbatim>\<open>ParseObject\<close> returns a
  duplicate-member error. For \<^verbatim>\<open>{"a":1,"a":2}\<close> and for \<^verbatim>\<open>{"a":1,"\u0061":2}\<close> it
  does. For \<^verbatim>\<open>{"a":-1,"a":2}\<close> it returns the error "failed to extract identifier:
  unexpected character -" at the first member, whose value starts with a minus sign and
  is taken for an identifier; for \<^verbatim>\<open>{"a":[1],"a":2}\<close> it panics at the first member,
  where \<^verbatim>\<open>parseEmbeddedArray\<close> adds the element to the nil map of \<^verbatim>\<open>ArrayStruct{}\<close>.
  Neither call reaches the second \<^verbatim>\<open>a\<close>. The check itself is right: after members
  whose values the parser accepts, a repeated name is found
  (\<open>ParseObject_repeated_member_name\<close>).
\<close>

theorem C4_duplicate_after_negative_number:
  "(case ParseObject (gs ''{\"a\":1,\"a\":2}'') of
      Inl f \<Rightarrow> f = Err (DuplicateMemberName (gs ''a'')) | Inr _ \<Rightarrow> False) \<and>
   (case ParseObject (gs ''{\"a\":1,\"'' @ esc ''u0061'' @ gs ''\":2}'') of
      Inl f \<Rightarrow> f = Err (DuplicateMemberName (gs ''a'')) | Inr _ \<Rightarrow> False) \<and>
   (case ParseObject (gs ''{\"a\":-1,\"a\":2}'') of
      Inl f \<Rightarrow> f = Err (FailedToExtractIdentifier (UnexpectedCharacter 0x2D)) | Inr _ \<Rightarrow> False) \<and>
   (case ParseObject (gs ''{\"a\":[1],\"a\":2}'') of
      Inl f \<Rightarrow> f = Panic AssignmentToEntryInNilMap | Inr _ \<Rightarrow> False)"
  by code_simp

subsection \<open>C6: surrogate pairs\<close>

text \<open>
  Claim C6: in a string value the escapes \<^verbatim>\<open>\uD834\uDD1E\<close> decode to the one code point
  U+1D11E. After the escape \<^verbatim>\<open>\uD834\<close> of a high surrogate, wherever it stands in a
  string with no surrogate pending before it, the parse of the string fails when what
  follows is the closing quote, a raw character, an escape other than \<^verbatim>\<open>\u\<close>, a
  \<^verbatim>\<open>\u\<close> escape whose four digits are not a low surrogate or not hexadecimal, or the end
  of the input.
\<close>

theorem C6_surrogate_pair:
  "parseString (gs ''\"'' @ esc ''uD834'' @ esc ''uDD1E'' @ gs ''\"'') = Inr ([0x1D11E], []) \<and>
   (case ParseObject (gs ''{\"k\":\"'' @ esc ''uD834'' @ esc ''uDD1E'' @ gs ''\"}'') of
      Inr object \<Rightarrow> Object_GetString object (gs ''k'') = Inr [0x1D11E] | Inl _ \<Rightarrow> False) \<and>
   (\<forall>b r. parseString_loop 0 b (esc ''uD834'' @ gs ''\"'' @ r) = Inl (UnexpectedCharacter 0x22)) \<and>
   (\<forall>b c r. c \<noteq> 0x22 \<and> c \<noteq> 0x5C \<longrightarrow>
      parseString_loop 0 b (esc ''uD834'' @ c # r) = Inl ExpectedHexEncoding) \<and>
   (\<forall>b c r. c \<noteq> 0x75 \<longrightarrow>
      parseString_loop 0 b (esc ''uD834'' @ 0x5C # c # r) = Inl ExpectedHexEncoding) \<and>
   (\<forall>b r d r'. parseString_hex 0 0 r = Inr (d, r') \<and> \<not> (0xDC00 \<le> d \<and> d < 0xE000) \<longrightarrow>
      parseString_loop 0 b (esc ''uD834'' @ esc ''u'' @ r) = Inl InvalidCharacterEncoding) \<and>
   (\<forall>b r e. parseString_hex 0 0 r = Inl e \<longrightarrow>
      parseString_loop 0 b (esc ''uD834'' @ esc ''u'' @ r) = Inl e) \<and>
   (\<forall>b. parseString_loop 0 b (esc ''uD834'') = Inl FailedToReadRune)"
proof -
  have pair: "parseString (gs ''\"'' @ esc ''uD834'' @ esc ''uDD1E'' @ gs ''\"'') = Inr ([0x1D11E], [])"
    by code_simp
  have member: "(case ParseObject (gs ''{\"k\":\"'' @ esc ''uD834'' @ esc ''uDD1E'' @ gs ''\"}'') of
      Inr object \<Rightarrow> Object_GetString object (gs ''k'') = Inr [0x1D11E] | Inl _ \<Rightarrow> False)"
    by code_simp
  have pending: "(0xD834 :: rune) > 0" by simp
  have last: "parseString_loop 0 b (esc ''uD834'') = Inl FailedToReadRune" for b
    using pending_D834 [of b "[]"] by (simp add: pending_end)
  show ?thesis
    using pair member last
    by (auto simp: pending_D834 gs_def pending_quote [OF pending] pending_raw [OF pending]
          pending_escape [OF pending] pending_hex [OF pending] pending_bad_hex
          esc_def [of "''u''"])
qed

text \<open>
  Claim C6 at the strings \<^verbatim>\<open>"\uD834t"\<close>, \<^verbatim>\<open>"\uD834\u0041"\<close> and \<^verbatim>\<open>"\uD834\n"\<close>.
\<close>

theorem C6_surrogate_pair_witness:
  "(0x74 :: rune) \<noteq> 0x22 \<and> (0x74 :: rune) \<noteq> 0x5C \<and>
   parseString (gs ''\"'' @ esc ''uD834'' @ gs ''t\"'') = Inl ExpectedHexEncoding \<and>
   parseString_hex 0 0 (gs ''0041\"'') = Inr (0x41, gs ''\"'') \<and>
   parseString (gs ''\"'' @ esc ''uD834'' @ esc ''u0041'' @ gs ''\"'') = Inl InvalidCharacterEncoding \<and>
   parseString (gs ''\"'' @ esc ''uD834'' @ esc ''n'' @ gs ''\"'') = Inl ExpectedHexEncoding"
proof -
  have start: "parseString (0x22 # s) = parseString_loop 0 [] s" for s
    by (simp add: parseString_def ReplacementChar_def)
  have hex: "parseString_hex 0 0 (gs ''0041\"'') = Inr (0x41, gs ''\"'')"
    by code_simp
  from C6_surrogate_pair hex
  have raw: "parseString_loop 0 [] (esc ''uD834'' @ 0x74 # gs ''\"'') = Inl ExpectedHexEncoding"
    and low: "parseString_loop 0 [] (esc ''uD834'' @ esc ''u'' @ gs ''0041\"'') = Inl InvalidCharacterEncoding"
    and short: "parseString_loop 0 [] (esc ''uD834'' @ 0x5C # 0x6E # gs ''\"'') = Inl ExpectedHexEncoding"
    by simp_all
  from raw low short hex show ?thesis
    by (simp add: start gs_def esc_def)
qed

subsection \<open>C8: out-of-bounds writes\<close>

text \<open>
  Claim C8: for every array of length \<open>L\<close>, a \<^verbatim>\<open>Set\<close> call at an index \<open>i \<ge> L\<close>
  panics with "out of bounds" and leaves the array as it was, length included; a
  \<^verbatim>\<open>Set\<close> call at an index from 0 to \<open>L - 1\<close> does not panic and leaves the length
  unchanged. The arrays are those that the methods can make: \<^verbatim>\<open>ArrayStruct{}\<close> or
  \<^verbatim>\<open>NewArray()\<close>, followed by any \<^verbatim>\<open>Add\<close> and \<^verbatim>\<open>Set\<close> calls.
\<close>

theorem C8_array_set_bounds:
  assumes "array_built array"
  shows "(index \<ge> Length array \<longrightarrow> Array_Set index v array = (Some OutOfBounds, array)) \<and>
         (0 \<le> index \<and> index < Length array \<longrightarrow>
            (\<exists>array'. Array_Set index v array = (None, array') \<and> Length array' = Length array))"
proof (intro conjI impI)
  assume "index \<ge> Length array"
  then show "Array_Set index v array = (Some OutOfBounds, array)"
    by (simp add: Length_def Array_Set_out_of_bounds)
next
  assume range: "0 \<le> index \<and> index < Length array"
  then have "array \<noteq> zero_ArrayStruct"
    by (auto simp: Length_def zero_ArrayStruct_def)
  with assms have "allocated array" using array_built_cases by blast
  with range show "\<exists>array'. Array_Set index v array = (None, array') \<and> Length array' = Length array"
    using Array_Set_allocated [of array index v] by (auto simp: Length_def)
qed

text \<open>
  Claim C8 at an array of length 2: \<^verbatim>\<open>SetString(5, ...)\<close> panics and changes nothing,
  \<^verbatim>\<open>SetString(1, ...)\<close> does not panic.
\<close>

theorem C8_array_set_bounds_witness:
  "array_built (snd (Array_Add (VString (gs ''b'')) (snd (Array_Add (VString (gs ''a'')) NewArray)))) \<and>
   Length (snd (Array_Add (VString (gs ''b'')) (snd (Array_Add (VString (gs ''a'')) NewArray)))) = 2 \<and>
   Array_SetString 5 (gs ''c'') (snd (Array_Add (VString (gs ''b'')) (snd (Array_Add (VString (gs ''a'')) NewArray))))
     = (Some OutOfBounds, snd (Array_Add (VString (gs ''b'')) (snd (Array_Add (VString (gs ''a'')) NewArray)))) \<and>
   fst (Array_SetString 1 (gs ''c'') (snd (Array_Add (VString (gs ''b'')) (snd (Array_Add (VString (gs ''a'')) NewArray)))))
     = None"
proof -
  let ?a1 = "snd (Array_Add (VString (gs ''a'')) NewArray)"
  let ?a2 = "snd (Array_Add (VString (gs ''b'')) ?a1)"
  have b1: "array_built ?a1"
    by (rule array_built.add [OF array_built.new, of "VString (gs ''a'')" "fst (Array_Add (VString (gs ''a'')) NewArray)"]) simp
  have built: "array_built ?a2"
    by (rule array_built.add [OF b1, of "VString (gs ''b'')" "fst (Array_Add (VString (gs ''b'')) ?a1)"]) simp
  have len: "Length ?a2 = 2"
    by (simp add: Length_def Array_AddString_def NewArray_def go_assign_def)
  from C8_array_set_bounds [OF built, of 5 "VString (gs ''c'')"]
    C8_array_set_bounds [OF built, of 1 "VString (gs ''c'')"] built len
  show ?thesis by auto
qed

subsection \<open>C10: negative indices\<close>

text \<open>
  Claim C10 says that for every array a \<^verbatim>\<open>Set\<close> call at a negative index does not
  panic. On the array \<^verbatim>\<open>ArrayStruct{}\<close>, which is also what \<^verbatim>\<open>ParseArray\<close> returns for
  \<^verbatim>\<open>[]\<close>, \<^verbatim>\<open>SetString(-1, v)\<close> passes the bounds check and then panics at the assignment
  to an entry of a nil map.
\<close>

theorem C10_negative_index_counterexample:
  "ParseArray (gs ''[]'') = Inr zero_ArrayStruct \<and>
   Array_SetString (- 1) (gs ''v'') zero_ArrayStruct = (Some AssignmentToEntryInNilMap, zero_ArrayStruct)"
  by (simp add: ParseArray_def parseEmbeddedArray.simps parseEmbeddedArray_loop.simps gs_def
        ReplacementChar_def UnreadRune_def zero_ArrayStruct_def Array_SetString_def go_assign_def
        go_delete_def)

lemma array_built_length: "array_built array \<Longrightarrow> 0 \<le> arr_length array"
proof (induction rule: array_built.induct)
  case zero
  show ?case by (simp add: zero_ArrayStruct_def)
next
  case new
  show ?case by (simp add: NewArray_def)
next
  case (add array v p array')
  from array_built_cases [OF add.hyps(1)] show ?case
  proof
    assume "allocated array"
    from Array_Add_allocated [OF this, of v] add show ?thesis by auto
  next
    assume "array = zero_ArrayStruct"
    with add.hyps(2) Array_Add_zero have "array' = zero_ArrayStruct" by blast
    then show ?thesis by (simp add: zero_ArrayStruct_def)
  qed
next
  case (set array index v p array')
  show ?case
  proof (cases "index < arr_length array")
    case True
    from array_built_cases [OF set.hyps(1)] show ?thesis
    proof
      assume "allocated array"
      from Array_Set_allocated [OF this True, of v] set show ?thesis by auto
    next
      assume "array = zero_ArrayStruct"
      with set.hyps(2) Array_Set_zero have "array' = zero_ArrayStruct" by blast
      then show ?thesis by (simp add: zero_ArrayStruct_def)
    qed
  next
    case False
    with set Array_Set_out_of_bounds [of array index v] show ?thesis by simp
  qed
qed

text \<open>
  Claim C10, amended: for every array whose six maps exist, as \<^verbatim>\<open>NewArray\<close> makes them
  and every \<^verbatim>\<open>Add\<close> and \<^verbatim>\<open>Set\<close> call keeps them, and every negative index, a \<^verbatim>\<open>Set\<close>
  call at that index does not panic, stores the value without changing \<^verbatim>\<open>Length\<close>, and
  the \<^verbatim>\<open>Get\<close> call of the same kind at that index returns the value.
\<close>

theorem C10_negative_index_allocated:
  assumes "array_built array" "allocated array" "index < 0"
  shows "\<exists>array'. Array_Set index v array = (None, array') \<and> Length array' = Length array \<and>
           Array_Get_returns array' index v"
  using assms array_built_length [of array] Array_Set_allocated [of array index v]
  by (auto simp: Length_def)

text \<open>Claim C10, amended, at \<^verbatim>\<open>NewArray()\<close> and \<^verbatim>\<open>SetString(-1, v)\<close>.\<close>

theorem C10_negative_index_allocated_witness:
  "array_built NewArray \<and> allocated NewArray \<and> (- 1 :: int) < 0 \<and> Length NewArray = 0 \<and>
   fst (Array_SetString (- 1) (gs ''v'') NewArray) = None \<and>
   Length (snd (Array_SetString (- 1) (gs ''v'') NewArray)) = 0 \<and>
   Array_GetString (snd (Array_SetString (- 1) (gs ''v'') NewArray)) (- 1) = Inr (gs ''v'')"
proof -
  have alloc: "allocated NewArray" by (simp add: allocated_def NewArray_def)
  have len: "Length NewArray = 0" by (simp add: Length_def NewArray_def)
  from C10_negative_index_allocated [OF array_built.new alloc, of "- 1" "VString (gs ''v'')"] alloc len
  show ?thesis by (auto intro: array_built.new)
qed

end
